theory Spec2Isabelle
  imports Main
begin

section \<open>Data model of \<^verbatim>\<open>rules/base_rule.py\<close>\<close>

text \<open>
  Source text is modelled as \<^typ>\<open>string\<close>, a list of 8-bit characters; the non-ASCII
  values of the \<^verbatim>\<open>Severity\<close> enumeration are written as their UTF-8 bytes.
\<close>

text \<open>The fields of \<^verbatim>\<open>RuleReference\<close> carry the prefix \<open>ref_\<close> (\<open>chapter\<close> is a keyword).\<close>

datatype Severity = CRITICAL | WARNING | SUGGESTION

record RuleReference =
  ref_book :: string
  ref_chapter :: string
  ref_page :: string
  ref_url :: string
  ref_quote :: string

text \<open>\<^verbatim>\<open>sep.join(parts)\<close> of Python.\<close>

fun join :: "string \<Rightarrow> string list \<Rightarrow> string" where
  "join sep [] = []"
| "join sep [x] = x"
| "join sep (x # y # ys) = x @ sep @ join sep (y # ys)"

text \<open>
  \<^verbatim>\<open>BaseRule._format_reference\<close>: the guard on \<^verbatim>\<open>book\<close> comes first, then the
  list \<^verbatim>\<open>ref_parts\<close> is grown by the two conditional appends.
\<close>

definition format_reference :: "RuleReference \<Rightarrow> string" where
  "format_reference ref =
     (if ref_book ref = [] then []
      else
        let ref_parts = [ref_book ref];
            ref_parts = (if ref_chapter ref \<noteq> [] then ref_parts @ [ref_chapter ref] else ref_parts);
            ref_parts = (if ref_page ref \<noteq> [] then ref_parts @ [ref_page ref] else ref_parts)
        in join '' - '' ref_parts)"

subsection \<open>Issues, rules, syntax trees and parsed files\<close>

record Issue =
  issue_rule_id :: string
  issue_rule_name :: string
  issue_file_path :: string
  line_number :: int
  column_number :: int
  issue_severity :: Severity
  message :: string
  description :: string
  code_snippet :: string
  suggestion :: string
  issue_reference :: string

text \<open>
  The free-form \<^verbatim>\<open>config\<close> dictionary of a rule holds what the rule classes put
  there and what \<^verbatim>\<open>json.load\<close> returns: JSON values with string keys.
\<close>

datatype json =
  JNull | JBool bool | JInt int | JStr string | JList "json list" | JObj "(string \<times> json) list"

text \<open>
  The attributes of \<^verbatim>\<open>BaseRule\<close> that the engine and the issue helper read or write.
  \<open>rule_class\<close> is the name of the Python class of the object, by which its methods
  are dispatched.
\<close>

record BaseRule =
  rule_class :: string
  rule_id :: string
  name_cn :: string
  enabled :: bool
  severity :: Severity
  category :: string
  description_cn :: string
  reference :: RuleReference
  config :: json

text \<open>
  A node of the tree-sitter syntax tree: \<^verbatim>\<open>type\<close>, \<^verbatim>\<open>start_byte\<close>,
  \<^verbatim>\<open>end_byte\<close>, \<^verbatim>\<open>start_point\<close> (row, column) and \<^verbatim>\<open>children\<close>. The tree is
  immutable; a node object is referred to by its path from the root (the list of child
  indices), so that \<^verbatim>\<open>node.parent\<close> is the path without its last index.
\<close>

datatype node =
  Node (node_type: string) (start_byte: nat) (end_byte: nat) (start_point: "nat \<times> nat")
       (children: "node list")

text \<open>The dictionary built by \<^verbatim>\<open>CodeParser.parse_file\<close>.\<close>

record file_info =
  path :: string
  content :: string
  root_node :: node
  lines :: "string list"

subsection \<open>\<^verbatim>\<open>BaseRule.create_issue\<close>\<close>

text \<open>\<^verbatim>\<open>str(n)\<close> for a natural number, and for an integer.\<close>

fun str_nat :: "nat \<Rightarrow> string" where
  "str_nat n =
     (if n < 10 then [''0123456789'' ! n]
      else str_nat (n div 10) @ [''0123456789'' ! (n mod 10)])"

declare str_nat.simps [simp del]

definition str_int :: "int \<Rightarrow> string" where
  "str_int x = (if x < 0 then CHR ''-'' # str_nat (nat (- x)) else str_nat (nat x))"

text \<open>The format specification \<^verbatim>\<open>{x:4d}\<close>: decimal, right-aligned in at least four columns.\<close>

definition format_4d :: "int \<Rightarrow> string" where
  "format_4d x = replicate (4 - length (str_int x)) CHR '' '' @ str_int x"

text \<open>\<^verbatim>\<open>range(a, b)\<close> over the integers.\<close>

definition py_range :: "int \<Rightarrow> int \<Rightarrow> int list" where
  "py_range a b = [a..b - 1]"

text \<open>
  The body of the loop of \<^verbatim>\<open>create_issue\<close>,
  \<^verbatim>\<open>f"{prefix}{i+1:4d}: {lines[i]}"\<close>, and the loop itself, which appends one
  formatted line per index to \<^verbatim>\<open>code_lines\<close>. The indices of the loop lie in
  \<open>0 \<le> i < len(lines)\<close>, so \<^verbatim>\<open>lines[i]\<close> never raises.
\<close>

definition snippet_line :: "string list \<Rightarrow> int \<Rightarrow> int \<Rightarrow> string" where
  "snippet_line ls line_num i =
     (let prefix = (if i = line_num - 1 then ''>>> '' else ''    '')
      in prefix @ format_4d (i + 1) @ '': '' @ ls ! nat i)"

fun snippet_loop :: "string list \<Rightarrow> int \<Rightarrow> int list \<Rightarrow> string list \<Rightarrow> string list" where
  "snippet_loop ls line_num [] code_lines = code_lines"
| "snippet_loop ls line_num (i # is) code_lines =
     snippet_loop ls line_num is (code_lines @ [snippet_line ls line_num i])"

definition create_issue ::
  "BaseRule \<Rightarrow> file_info \<Rightarrow> node \<Rightarrow> string \<Rightarrow> string \<Rightarrow> Severity option \<Rightarrow> Issue" where
  "create_issue self fi nd msg sugg custom_severity =
     (let line_num = int (fst (start_point nd)) + 1;
          col = int (snd (start_point nd));
          start_line = max 0 (line_num - 3);
          end_line = min (int (length (lines fi))) (line_num + 2);
          code_lines = snippet_loop (lines fi) line_num (py_range start_line end_line) []
      in \<lparr>issue_rule_id = rule_id self,
          issue_rule_name = name_cn self,
          issue_file_path = path fi,
          line_number = line_num,
          column_number = col,
          issue_severity = (case custom_severity of Some s \<Rightarrow> s | None \<Rightarrow> severity self),
          message = msg,
          description = description_cn self,
          code_snippet = join [CHR 0x0A] code_lines,
          suggestion = sugg,
          issue_reference = format_reference (reference self)\<rparr>)"


subsection \<open>The rule classes of \<^verbatim>\<open>rules/logic_rules.py\<close> and \<^verbatim>\<open>rules/memory_rules.py\<close>\<close>

text \<open>
  The attribute values set by the constructors. Chinese text is given by its UTF-8 bytes.
\<close>

definition ArrayBoundsRule :: BaseRule where
  "ArrayBoundsRule =
     \<lparr>rule_class = ''ArrayBoundsRule'',
      rule_id = ''C001'',
      name_cn =
       [CHR 0xE6, CHR 0x95, CHR 0xB0, CHR 0xE7, CHR 0xBB, CHR 0x84, CHR 0xE8, CHR 0xB6, CHR 0x8A,
       CHR 0xE7, CHR 0x95, CHR 0x8C, CHR 0xE6, CHR 0xA3, CHR 0x80, CHR 0xE6, CHR 0x9F, CHR 0xA5],
      enabled = True,
      severity = CRITICAL,
      category =
       [CHR 0xE5, CHR 0x86, CHR 0x85, CHR 0xE5, CHR 0xAD, CHR 0x98, CHR 0xE5, CHR 0xAE, CHR 0x89,
       CHR 0xE5, CHR 0x85, CHR 0xA8],
      description_cn =
       [CHR 0xE6, CHR 0xA3, CHR 0x80, CHR 0xE6, CHR 0xB5, CHR 0x8B, CHR 0xE5, CHR 0x8F, CHR 0xAF,
       CHR 0xE8, CHR 0x83, CHR 0xBD, CHR 0xE7, CHR 0x9A, CHR 0x84, CHR 0xE6, CHR 0x95, CHR 0xB0,
       CHR 0xE7, CHR 0xBB, CHR 0x84, CHR 0xE4, CHR 0xB8, CHR 0x8B, CHR 0xE6, CHR 0xA0, CHR 0x87,
       CHR 0xE8, CHR 0xB6, CHR 0x8A, CHR 0xE7, CHR 0x95, CHR 0x8C, CHR 0xE8, CHR 0xAE, CHR 0xBF,
       CHR 0xE9, CHR 0x97, CHR 0xAE],
      reference =
       \<lparr>ref_book =
          [CHR 0xE3, CHR 0x80, CHR 0x8A, CHR 0x43, CHR 0xE9, CHR 0x99, CHR 0xB7, CHR 0xE9,
          CHR 0x98, CHR 0xB1, CHR 0xE4, CHR 0xB8, CHR 0x8E, CHR 0xE7, CHR 0xBC, CHR 0xBA,
          CHR 0xE9, CHR 0x99, CHR 0xB7, CHR 0xE3, CHR 0x80, CHR 0x8B],
        ref_chapter = [CHR 0xE7, CHR 0xAC, CHR 0xAC, CHR 0x32, CHR 0xE7, CHR 0xAB, CHR 0xA0],
        ref_page = ''P23-P27'',
        ref_url = [],
        ref_quote =
          [CHR 0xE6, CHR 0x95, CHR 0xB0, CHR 0xE7, CHR 0xBB, CHR 0x84, CHR 0xE4, CHR 0xB8,
          CHR 0x8B, CHR 0xE6, CHR 0xA0, CHR 0x87, CHR 0xE4, CHR 0xBB, CHR 0x8E, CHR 0x30,
          CHR 0xE5, CHR 0xBC, CHR 0x80, CHR 0xE5, CHR 0xA7, CHR 0x8B, CHR 0xE6, CHR 0x98,
          CHR 0xAF, CHR 0x43, CHR 0xE8, CHR 0xAF, CHR 0xAD, CHR 0xE8, CHR 0xA8, CHR 0x80,
          CHR 0xE7, CHR 0x9A, CHR 0x84, CHR 0xE4, CHR 0xB8, CHR 0x80, CHR 0xE4, CHR 0xB8,
          CHR 0xAA, CHR 0xE9, CHR 0x99, CHR 0xB7, CHR 0xE9, CHR 0x98, CHR 0xB1, CHR 0x2E,
          CHR 0x2E, CHR 0x2E]\<rparr>,
      config = JObj []\<rparr>"

definition AssignmentInConditionRule :: BaseRule where
  "AssignmentInConditionRule =
     \<lparr>rule_class = ''AssignmentInConditionRule'',
      rule_id = ''L001'',
      name_cn =
       [CHR 0xE6, CHR 0x9D, CHR 0xA1, CHR 0xE4, CHR 0xBB, CHR 0xB6, CHR 0xE4, CHR 0xB8, CHR 0xAD,
       CHR 0xE8, CHR 0xB5, CHR 0x8B, CHR 0xE5, CHR 0x80, CHR 0xBC, CHR 0xE6, CHR 0xA3, CHR 0x80,
       CHR 0xE6, CHR 0x9F, CHR 0xA5],
      enabled = True,
      severity = CRITICAL,
      category =
       [CHR 0xE9, CHR 0x80, CHR 0xBB, CHR 0xE8, CHR 0xBE, CHR 0x91, CHR 0xE9, CHR 0x94, CHR 0x99,
       CHR 0xE8, CHR 0xAF, CHR 0xAF],
      description_cn =
       [CHR 0xE6, CHR 0xA3, CHR 0x80, CHR 0xE6, CHR 0xB5, CHR 0x8B, CHR 0xE6, CHR 0x9D, CHR 0xA1,
       CHR 0xE4, CHR 0xBB, CHR 0xB6, CHR 0xE8, CHR 0xAF, CHR 0xAD, CHR 0xE5, CHR 0x8F, CHR 0xA5,
       CHR 0xE4, CHR 0xB8, CHR 0xAD, CHR 0xE7, CHR 0x9A, CHR 0x84, CHR 0xE8, CHR 0xB5, CHR 0x8B,
       CHR 0xE5, CHR 0x80, CHR 0xBC, CHR 0xE6, CHR 0x93, CHR 0x8D, CHR 0xE4, CHR 0xBD, CHR 0x9C,
       CHR 0xEF, CHR 0xBC, CHR 0x88, CHR 0xE5, CHR 0x8F, CHR 0xAF, CHR 0xE8, CHR 0x83, CHR 0xBD,
       CHR 0xE6, CHR 0x98, CHR 0xAF, CHR 0xE8, CHR 0xAF, CHR 0xAF, CHR 0xE5, CHR 0x86, CHR 0x99,
       CHR 0xEF, CHR 0xBC, CHR 0x89],
      reference =
       \<lparr>ref_book =
          [CHR 0xE3, CHR 0x80, CHR 0x8A, CHR 0x43, CHR 0xE9, CHR 0x99, CHR 0xB7, CHR 0xE9,
          CHR 0x98, CHR 0xB1, CHR 0xE4, CHR 0xB8, CHR 0x8E, CHR 0xE7, CHR 0xBC, CHR 0xBA,
          CHR 0xE9, CHR 0x99, CHR 0xB7, CHR 0xE3, CHR 0x80, CHR 0x8B],
        ref_chapter = [CHR 0xE7, CHR 0xAC, CHR 0xAC, CHR 0x31, CHR 0xE7, CHR 0xAB, CHR 0xA0],
        ref_page = ''P8-P12'',
        ref_url = [],
        ref_quote =
          [CHR 0x3D, CHR 0x20, CHR 0xE5, CHR 0x92, CHR 0x8C, CHR 0x20, CHR 0x3D, CHR 0x3D,
          CHR 0x20, CHR 0xE7, CHR 0x9A, CHR 0x84, CHR 0xE6, CHR 0xB7, CHR 0xB7, CHR 0xE6,
          CHR 0xB7, CHR 0x86, CHR 0xE6, CHR 0x98, CHR 0xAF, CHR 0x43, CHR 0xE8, CHR 0xAF,
          CHR 0xAD, CHR 0xE8, CHR 0xA8, CHR 0x80, CHR 0xE4, CHR 0xB8, CHR 0xAD, CHR 0xE6,
          CHR 0x9C, CHR 0x80, CHR 0xE5, CHR 0xB8, CHR 0xB8, CHR 0xE8, CHR 0xA7, CHR 0x81,
          CHR 0xE7, CHR 0x9A, CHR 0x84, CHR 0xE9, CHR 0x94, CHR 0x99, CHR 0xE8, CHR 0xAF,
          CHR 0xAF, CHR 0xE4, CHR 0xB9, CHR 0x8B, CHR 0xE4, CHR 0xB8, CHR 0x80]\<rparr>,
      config = JObj []\<rparr>"


definition DivisionByZeroRule :: BaseRule where
  "DivisionByZeroRule =
     \<lparr>rule_class = ''DivisionByZeroRule'',
      rule_id = ''L005'',
      name_cn =
       [CHR 0xE9, CHR 0x99, CHR 0xA4, CHR 0xE9, CHR 0x9B, CHR 0xB6, CHR 0xE6, CHR 0xA3, CHR 0x80,
       CHR 0xE6, CHR 0x9F, CHR 0xA5],
      enabled = True,
      severity = CRITICAL,
      category =
       [CHR 0xE9, CHR 0x80, CHR 0xBB, CHR 0xE8, CHR 0xBE, CHR 0x91, CHR 0xE9, CHR 0x94, CHR 0x99,
       CHR 0xE8, CHR 0xAF, CHR 0xAF],
      description_cn =
       [CHR 0xE6, CHR 0xA3, CHR 0x80, CHR 0xE6, CHR 0xB5, CHR 0x8B, CHR 0xE5, CHR 0x8F, CHR 0xAF,
       CHR 0xE8, CHR 0x83, CHR 0xBD, CHR 0xE7, CHR 0x9A, CHR 0x84, CHR 0xE9, CHR 0x99, CHR 0xA4,
       CHR 0xE9, CHR 0x9B, CHR 0xB6, CHR 0xE6, CHR 0x93, CHR 0x8D, CHR 0xE4, CHR 0xBD, CHR 0x9C],
      reference =
       \<lparr>ref_book =
          [CHR 0xE3, CHR 0x80, CHR 0x8A, CHR 0x43, CHR 0xE9, CHR 0x99, CHR 0xB7, CHR 0xE9,
          CHR 0x98, CHR 0xB1, CHR 0xE4, CHR 0xB8, CHR 0x8E, CHR 0xE7, CHR 0xBC, CHR 0xBA,
          CHR 0xE9, CHR 0x99, CHR 0xB7, CHR 0xE3, CHR 0x80, CHR 0x8B],
        ref_chapter = [CHR 0xE7, CHR 0xAC, CHR 0xAC, CHR 0x36, CHR 0xE7, CHR 0xAB, CHR 0xA0],
        ref_page = ''P78-P82'',
        ref_url = [],
        ref_quote =
          [CHR 0xE9, CHR 0x99, CHR 0xA4, CHR 0xE9, CHR 0x9B, CHR 0xB6, CHR 0xE6, CHR 0x98,
          CHR 0xAF, CHR 0xE6, CHR 0x9C, CHR 0xAA, CHR 0xE5, CHR 0xAE, CHR 0x9A, CHR 0xE4,
          CHR 0xB9, CHR 0x89, CHR 0xE8, CHR 0xA1, CHR 0x8C, CHR 0xE4, CHR 0xB8, CHR 0xBA]\<rparr>,
      config = JObj []\<rparr>"

section \<open>The rule engine of \<^verbatim>\<open>core/rule_engine.py\<close>\<close>

subsection \<open>Exceptions, severities as strings, settings dictionaries\<close>

text \<open>An exception that a Python call raises is a value of this type.\<close>

datatype exn =
  ValueError string | KeyError string | FileNotFoundError string | TypeError string
  | Exception string

text \<open>
  \<^verbatim>\<open>Severity.X.value\<close> and the enum lookup \<^verbatim>\<open>Severity(v)\<close>, which raises
  \<^verbatim>\<open>ValueError\<close> (here \<open>None\<close>) for any other string.
\<close>

fun Severity_value :: "Severity \<Rightarrow> string" where
  "Severity_value CRITICAL = [CHR 0xE4, CHR 0xB8, CHR 0xA5, CHR 0xE9, CHR 0x87, CHR 0x8D]"
| "Severity_value WARNING = [CHR 0xE8, CHR 0xAD, CHR 0xA6, CHR 0xE5, CHR 0x91, CHR 0x8A]"
| "Severity_value SUGGESTION = [CHR 0xE5, CHR 0xBB, CHR 0xBA, CHR 0xE8, CHR 0xAE, CHR 0xAE]"

definition Severity_of_value :: "string \<Rightarrow> Severity option" where
  "Severity_of_value v =
     (if v = Severity_value CRITICAL then Some CRITICAL
      else if v = Severity_value WARNING then Some WARNING
      else if v = Severity_value SUGGESTION then Some SUGGESTION
      else None)"

text \<open>
  The per-rule dictionary found under \<^verbatim>\<open>rule_settings\<close>, in a template and in a
  configuration file alike. Every key may be absent (\<open>None\<close>).
\<close>

record settings_dict =
  s_enabled :: "bool option"
  s_severity :: "string option"
  s_category :: "string option"
  s_config :: "json option"

text \<open>A template: the keys \<^verbatim>\<open>name\<close>, \<^verbatim>\<open>enabled_rules\<close> and \<^verbatim>\<open>rule_settings\<close>.\<close>

record template =
  t_name :: "string option"
  t_enabled_rules :: "string list option"
  t_rule_settings :: "(string \<rightharpoonup> settings_dict) option"

text \<open>The dictionary that \<^verbatim>\<open>export_config\<close> dumps and \<^verbatim>\<open>import_config\<close> loads.\<close>

record config_doc =
  d_version :: "string option"
  d_export_time :: "string option"
  d_enabled_rules :: "string list option"
  d_rule_settings :: "(string \<rightharpoonup> settings_dict) option"

text \<open>
  The engine object. Rule objects are the elements of \<open>rules\<close>; an operation that
  mutates a rule in place returns the list with that element replaced.
\<close>

record RuleEngine =
  rules :: "BaseRule list"
  rule_templates :: "string \<rightharpoonup> template"

text \<open>\<^verbatim>\<open>d.get(key, default)\<close> for an optional key.\<close>

definition get_default :: "'a option \<Rightarrow> 'a \<Rightarrow> 'a" where
  "get_default v d = (case v of None \<Rightarrow> d | Some x \<Rightarrow> x)"

subsection \<open>\<^verbatim>\<open>RuleEngine.apply_template\<close>\<close>

text \<open>
  The loop over \<^verbatim>\<open>self.rules\<close>. The rules are updated in place one after the
  other; when \<^verbatim>\<open>Severity(settings['severity'])\<close> raises, the rule at hand has its new
  \<^verbatim>\<open>enabled\<close> flag already, the rules behind it are untouched, and the exception
  leaves the loop.
\<close>

fun apply_template_loop ::
  "string list \<Rightarrow> (string \<rightharpoonup> settings_dict) \<Rightarrow> BaseRule list \<Rightarrow> BaseRule list \<times> exn option" where
  "apply_template_loop enabled_rules rule_settings [] = ([], None)"
| "apply_template_loop enabled_rules rule_settings (rule # rest) =
     (let rule = rule\<lparr>enabled := rule_id rule \<in> set enabled_rules\<rparr> in
      case rule_settings (rule_id rule) of
        None \<Rightarrow>
          (let (rest', e) = apply_template_loop enabled_rules rule_settings rest
           in (rule # rest', e))
      | Some settings \<Rightarrow>
          (case s_severity settings of
             None \<Rightarrow>
               (let (rest', e) = apply_template_loop enabled_rules rule_settings rest
                in (rule # rest', e))
           | Some v \<Rightarrow>
               (case Severity_of_value v of
                  None \<Rightarrow> (rule # rest, Some (ValueError v))
                | Some sev \<Rightarrow>
                    (let (rest', e) = apply_template_loop enabled_rules rule_settings rest
                     in (rule\<lparr>severity := sev\<rparr> # rest', e)))))"

text \<open>
  \<^verbatim>\<open>apply_template\<close> returns the engine as the call leaves it, and the exception
  it raised, if any. The final \<^verbatim>\<open>print\<close> reads \<^verbatim>\<open>template['name']\<close>, a
  \<^verbatim>\<open>KeyError\<close> for a template without that key.
\<close>

definition apply_template :: "RuleEngine \<Rightarrow> string \<Rightarrow> RuleEngine \<times> exn option" where
  "apply_template self template_name =
     (case rule_templates self template_name of
        None \<Rightarrow> (self, None)
      | Some template \<Rightarrow>
          (let enabled_rules = get_default (t_enabled_rules template) [];
               rule_settings = get_default (t_rule_settings template) Map.empty;
               (rules', e) = apply_template_loop enabled_rules rule_settings (rules self)
           in case e of
                Some x \<Rightarrow> (self\<lparr>rules := rules'\<rparr>, Some x)
              | None \<Rightarrow>
                  (case t_name template of
                     None \<Rightarrow> (self\<lparr>rules := rules'\<rparr>, Some (KeyError ''name''))
                   | Some n \<Rightarrow> (self\<lparr>rules := rules'\<rparr>, None))))"

subsection \<open>\<^verbatim>\<open>RuleEngine.get_rule_by_id\<close>, \<^verbatim>\<open>add_rule\<close>, \<^verbatim>\<open>remove_rule\<close>\<close>

fun get_rule_by_id :: "BaseRule list \<Rightarrow> string \<Rightarrow> BaseRule option" where
  "get_rule_by_id [] rid = None"
| "get_rule_by_id (rule # rest) rid = (if rule_id rule = rid then Some rule else get_rule_by_id rest rid)"

definition remove_rule :: "RuleEngine \<Rightarrow> string \<Rightarrow> RuleEngine" where
  "remove_rule self rid = self\<lparr>rules := filter (\<lambda>rule. rule_id rule \<noteq> rid) (rules self)\<rparr>"

definition add_rule :: "RuleEngine \<Rightarrow> BaseRule \<Rightarrow> RuleEngine" where
  "add_rule self rule =
     (let self = (case get_rule_by_id (rules self) (rule_id rule) of
                    Some old \<Rightarrow> remove_rule self (rule_id rule)
                  | None \<Rightarrow> self)
      in self\<lparr>rules := rules self @ [rule]\<rparr>)"

subsection \<open>\<^verbatim>\<open>RuleEngine.export_config\<close> and \<^verbatim>\<open>import_config\<close>\<close>

text \<open>
  The files that hold configurations are a store from paths to the dictionaries they
  contain: \<^verbatim>\<open>json.dump\<close> writes the dictionary under the path, \<^verbatim>\<open>json.load\<close>
  reads it back. The \<^verbatim>\<open>config\<close> values are JSON values, which the pair returns as
  they were written.
\<close>

type_synonym file_store = "string \<rightharpoonup> config_doc"

text \<open>The loop that fills \<^verbatim>\<open>config['rule_settings']\<close>, a later rule overwriting the
  entry of an earlier rule of the same identifier.\<close>

fun export_loop :: "BaseRule list \<Rightarrow> (string \<rightharpoonup> settings_dict) \<Rightarrow> (string \<rightharpoonup> settings_dict)" where
  "export_loop [] rule_settings = rule_settings"
| "export_loop (rule # rest) rule_settings =
     export_loop rest
       (rule_settings(rule_id rule \<mapsto>
          \<lparr>s_enabled = Some (enabled rule),
           s_severity = Some (Severity_value (severity rule)),
           s_category = Some (category rule),
           s_config = Some (config rule)\<rparr>))"

definition export_config :: "RuleEngine \<Rightarrow> string \<Rightarrow> file_store \<Rightarrow> string \<Rightarrow> file_store" where
  "export_config self cwd fs config_path =
     (let config =
            \<lparr>d_version = Some ''1.0'',
             d_export_time = Some cwd,
             d_enabled_rules = Some (map rule_id (filter enabled (rules self))),
             d_rule_settings = Some Map.empty\<rparr>;
          config = config\<lparr>d_rule_settings :=
                      Some (export_loop (rules self) (get_default (d_rule_settings config) Map.empty))\<rparr>
      in fs(config_path \<mapsto> config))"

text \<open>
  The body of the loop of \<^verbatim>\<open>import_config\<close> for one rule. An invalid severity is
  reported and skipped (\<^verbatim>\<open>except ValueError\<close>), so no exception leaves the loop.
\<close>

definition import_rule :: "string list \<Rightarrow> (string \<rightharpoonup> settings_dict) \<Rightarrow> BaseRule \<Rightarrow> BaseRule" where
  "import_rule enabled_rules rule_settings rule =
     (let rule = rule\<lparr>enabled := rule_id rule \<in> set enabled_rules\<rparr> in
      case rule_settings (rule_id rule) of
        None \<Rightarrow> rule
      | Some settings \<Rightarrow>
          (let rule = (case s_severity settings of
                         None \<Rightarrow> rule
                       | Some v \<Rightarrow>
                           (case Severity_of_value v of
                              None \<Rightarrow> rule
                            | Some sev \<Rightarrow> rule\<lparr>severity := sev\<rparr>));
               rule = (case s_config settings of
                         None \<Rightarrow> rule
                       | Some c \<Rightarrow> rule\<lparr>config := c\<rparr>)
           in rule))"

fun import_loop :: "string list \<Rightarrow> (string \<rightharpoonup> settings_dict) \<Rightarrow> BaseRule list \<Rightarrow> BaseRule list" where
  "import_loop enabled_rules rule_settings [] = []"
| "import_loop enabled_rules rule_settings (rule # rest) =
     import_rule enabled_rules rule_settings rule # import_loop enabled_rules rule_settings rest"

text \<open>
  \<^verbatim>\<open>import_config\<close>: opening a path that holds no file raises, and the handler
  re-raises what it caught.
\<close>

definition import_config :: "RuleEngine \<Rightarrow> file_store \<Rightarrow> string \<Rightarrow> RuleEngine \<times> exn option" where
  "import_config self fs config_path =
     (case fs config_path of
        None \<Rightarrow> (self, Some (FileNotFoundError config_path))
      | Some loaded \<Rightarrow>
          (let enabled_rules = get_default (d_enabled_rules loaded) [];
               rule_settings = get_default (d_rule_settings loaded) Map.empty
           in (self\<lparr>rules := import_loop enabled_rules rule_settings (rules self)\<rparr>, None)))"

subsection \<open>\<^verbatim>\<open>RuleEngine.check_files\<close>\<close>

text \<open>
  The methods \<^verbatim>\<open>is_applicable\<close> and \<^verbatim>\<open>check\<close> of the rule classes are code that
  the engine calls without knowing it. A method gets the rule object and the parsed file;
  it returns the rule object as the call leaves it, and either the exception it raised or
  its result.
\<close>

record methods =
  is_applicable :: "BaseRule \<Rightarrow> file_info \<Rightarrow> BaseRule \<times> (exn + bool)"
  check :: "BaseRule \<Rightarrow> file_info \<Rightarrow> BaseRule \<times> (exn + Issue list)"

text \<open>What one evaluation of the \<^verbatim>\<open>try\<close> block for a rule and a file comes to.\<close>

datatype outcome = Raised exn | NotApplicable | Checked "Issue list"

text \<open>
  The \<^verbatim>\<open>try\<close> block: \<^verbatim>\<open>check\<close> is called when \<^verbatim>\<open>is_applicable\<close> returned
  true, and an exception of either call is caught by \<^verbatim>\<open>except Exception\<close>.
\<close>

definition try_rule :: "methods \<Rightarrow> file_info \<Rightarrow> BaseRule \<Rightarrow> BaseRule \<times> outcome" where
  "try_rule M file_info rule =
     (case is_applicable M rule file_info of
        (rule1, Inl e) \<Rightarrow> (rule1, Raised e)
      | (rule1, Inr applicable) \<Rightarrow>
          (if applicable then
             (case check M rule1 file_info of
                (rule2, Inl e) \<Rightarrow> (rule2, Raised e)
              | (rule2, Inr issues) \<Rightarrow> (rule2, Checked issues))
           else (rule1, NotApplicable)))"

text \<open>
  \<^verbatim>\<open>get_enabled_rules\<close> returns the enabled rule objects in registration order. The
  loops below refer to these objects by their positions in \<^verbatim>\<open>self.rules\<close>.
\<close>

definition get_enabled_rules :: "RuleEngine \<Rightarrow> BaseRule list" where
  "get_enabled_rules self = filter enabled (rules self)"

definition enabled_positions :: "BaseRule list \<Rightarrow> nat list" where
  "enabled_positions rs = filter (\<lambda>i. enabled (rs ! i)) [0..<length rs]"

text \<open>
  The inner loop, over \<^verbatim>\<open>enabled_rules\<close>, for one file. Besides the rule objects and
  \<^verbatim>\<open>file_issues\<close> it keeps a trace with one entry for each evaluation of the
  \<^verbatim>\<open>try\<close> block: the position of the rule and the outcome. (The source prints a line
  for a failure and for a non-empty result; the trace has the silent outcomes too.)
\<close>

fun rules_loop ::
  "methods \<Rightarrow> file_info \<Rightarrow> nat list \<Rightarrow> BaseRule list \<Rightarrow> Issue list \<Rightarrow> (nat \<times> outcome) list
   \<Rightarrow> BaseRule list \<times> Issue list \<times> (nat \<times> outcome) list" where
  "rules_loop M file_info [] rs file_issues tr = (rs, file_issues, tr)"
| "rules_loop M file_info (i # enabled_rules) rs file_issues tr =
     (case try_rule M file_info (rs ! i) of
        (rule', Raised e) \<Rightarrow>
          rules_loop M file_info enabled_rules (rs[i := rule']) file_issues (tr @ [(i, Raised e)])
      | (rule', NotApplicable) \<Rightarrow>
          rules_loop M file_info enabled_rules (rs[i := rule']) file_issues (tr @ [(i, NotApplicable)])
      | (rule', Checked issues) \<Rightarrow>
          rules_loop M file_info enabled_rules (rs[i := rule']) (file_issues @ issues)
            (tr @ [(i, Checked issues)]))"

text \<open>The outer loop, over \<^verbatim>\<open>parsed_files\<close>.\<close>

fun files_loop ::
  "methods \<Rightarrow> nat list \<Rightarrow> file_info list \<Rightarrow> BaseRule list \<Rightarrow> Issue list
   \<Rightarrow> (nat \<times> outcome) list list
   \<Rightarrow> BaseRule list \<times> Issue list \<times> (nat \<times> outcome) list list" where
  "files_loop M enabled_rules [] rs all_issues trace = (rs, all_issues, trace)"
| "files_loop M enabled_rules (file_info # parsed_files) rs all_issues trace =
     (case rules_loop M file_info enabled_rules rs [] [] of
        (rs', file_issues, tr) \<Rightarrow>
          files_loop M enabled_rules parsed_files rs' (all_issues @ file_issues) (trace @ [tr]))"

text \<open>
  \<^verbatim>\<open>check_files\<close> returns the engine as the call leaves it, the list
  \<^verbatim>\<open>all_issues\<close>, and the trace, one row per file.
\<close>

definition check_files ::
  "methods \<Rightarrow> RuleEngine \<Rightarrow> file_info list \<Rightarrow> RuleEngine \<times> Issue list \<times> (nat \<times> outcome) list list" where
  "check_files M self parsed_files =
     (let enabled_rules = enabled_positions (rules self) in
      if enabled_rules = [] then (self, [], [])
      else
        (case files_loop M enabled_rules parsed_files (rules self) [] [] of
           (rs', all_issues, trace) \<Rightarrow> (self\<lparr>rules := rs'\<rparr>, all_issues, trace)))"

text \<open>The issues that an outcome adds to the result.\<close>

fun contribution :: "outcome \<Rightarrow> Issue list" where
  "contribution (Raised e) = []"
| "contribution NotApplicable = []"
| "contribution (Checked issues) = issues"

text \<open>The part of a rule that the registry configures, with the rule's identity.\<close>

definition rule_configuration :: "BaseRule \<Rightarrow> string \<times> bool \<times> Severity \<times> json" where
  "rule_configuration rule = (rule_id rule, enabled rule, severity rule, config rule)"

subsection \<open>What a batch run is to return\<close>

text \<open>
  The specification of the result of \<^verbatim>\<open>check\<close> in its own words: for each file in
  file order, for each enabled rule in rule order, the issues of the evaluation of that
  rule on that file, where an evaluation that raised gives none; the whole is the
  concatenation. The second argument holds the enabled rule objects as they are when the
  file is reached; an evaluation may have changed the object it was called on.
\<close>

fun collected_issues :: "methods \<Rightarrow> file_info list \<Rightarrow> BaseRule list \<Rightarrow> Issue list" where
  "collected_issues M [] enabled_rules = []"
| "collected_issues M (file_info # parsed_files) enabled_rules =
     concat (map (\<lambda>rule. contribution (snd (try_rule M file_info rule))) enabled_rules)
     @ collected_issues M parsed_files (map (\<lambda>rule. fst (try_rule M file_info rule)) enabled_rules)"

subsection \<open>An engine with a failing rule\<close>

text \<open>
  Example inputs for \<^verbatim>\<open>check_files\<close>: three registered rules, the second disabled;
  the \<^verbatim>\<open>check\<close> of the first raises for every file, the \<^verbatim>\<open>check\<close> of the others
  reports the root node.
\<close>

definition example_methods :: methods where
  "example_methods =
     \<lparr>is_applicable = (\<lambda>rule file_info. (rule, Inr True)),
      check = (\<lambda>rule file_info.
         if rule_class rule = ''BrokenRule'' then (rule, Inl (KeyError ''root_node''))
         else (rule, Inr [create_issue rule file_info (root_node file_info) ''found'' [] None]))\<rparr>"

definition example_engine :: RuleEngine where
  "example_engine =
     \<lparr>rules = [ArrayBoundsRule\<lparr>rule_class := ''BrokenRule'', rule_id := ''X001''\<rparr>,
               DivisionByZeroRule\<lparr>enabled := False\<rparr>,
               AssignmentInConditionRule],
      rule_templates = Map.empty\<rparr>"

definition example_file_a :: file_info where
  "example_file_a =
     \<lparr>path = ''a.c'', content = ''x'', root_node = Node ''translation_unit'' 0 1 (0, 0) [],
      lines = [''x'']\<rparr>"

definition example_file_b :: file_info where
  "example_file_b =
     \<lparr>path = ''b.c'', content = ''y'', root_node = Node ''translation_unit'' 0 1 (0, 0) [],
      lines = [''y'']\<rparr>"

section \<open>The tree queries of \<^verbatim>\<open>core/parser.py\<close>\<close>

text \<open>
  A node object is a subtree together with its position in the tree of the file, the
  path from the root. The root of a file is at the empty path.
\<close>

type_synonym node_ref = "nat list \<times> node"

definition root_ref :: "file_info \<Rightarrow> node_ref" where
  "root_ref file_info = ([], root_node file_info)"

text \<open>The subtree at a path, if the path leads to a node.\<close>

fun node_at :: "node \<Rightarrow> nat list \<Rightarrow> node option" where
  "node_at nd [] = Some nd"
| "node_at nd (i # p) = (if i < length (children nd) then node_at (children nd ! i) p else None)"

text \<open>\<^verbatim>\<open>node.children\<close> and \<^verbatim>\<open>node.parent\<close> (\<open>None\<close> at the root).\<close>

definition children_of :: "node_ref \<Rightarrow> node_ref list" where
  "children_of r = map (\<lambda>i. (fst r @ [i], children (snd r) ! i)) [0..<length (children (snd r))]"

definition parent_of :: "node \<Rightarrow> node_ref \<Rightarrow> node_ref option" where
  "parent_of root r =
     (if fst r = [] then None
      else (case node_at root (butlast (fst r)) of
              None \<Rightarrow> None
            | Some nd \<Rightarrow> Some (butlast (fst r), nd)))"

text \<open>
  \<^verbatim>\<open>CodeParser.get_node_text\<close>: the slice \<^verbatim>\<open>content[start_byte:end_byte]\<close>, which
  is empty when the bounds are beyond the text or in the wrong order.
\<close>

definition get_node_text :: "node \<Rightarrow> string \<Rightarrow> string" where
  "get_node_text nd content_text = take (end_byte nd - start_byte nd) (drop (start_byte nd) content_text)"

text \<open>
  \<^verbatim>\<open>CodeParser.find_nodes_by_type\<close>: the inner function \<^verbatim>\<open>traverse\<close> visits the
  node and then its children from left to right, appending the nodes of the wanted type.
\<close>

fun traverse :: "string \<Rightarrow> nat list \<Rightarrow> node \<Rightarrow> node_ref list"
  and traverse_children :: "string \<Rightarrow> nat list \<Rightarrow> nat \<Rightarrow> node list \<Rightarrow> node_ref list" where
  "traverse ty p (Node t sb eb sp cs) =
     (if t = ty then [(p, Node t sb eb sp cs)] else []) @ traverse_children ty p 0 cs"
| "traverse_children ty p i [] = []"
| "traverse_children ty p i (c # cs) = traverse ty (p @ [i]) c @ traverse_children ty p (Suc i) cs"

definition find_nodes_by_type :: "node_ref \<Rightarrow> string \<Rightarrow> node_ref list" where
  "find_nodes_by_type r ty = traverse ty (fst r) (snd r)"

text \<open>Python's \<^verbatim>\<open>sub in text\<close> for strings, and \<^verbatim>\<open>text.strip()\<close>.\<close>

fun starts_with :: "string \<Rightarrow> string \<Rightarrow> bool" where
  "starts_with txt [] = True"
| "starts_with [] (c # sub) = False"
| "starts_with (d # txt) (c # sub) = (d = c \<and> starts_with txt sub)"

fun contains :: "string \<Rightarrow> string \<Rightarrow> bool" where
  "contains [] sub = (sub = [])"
| "contains (d # txt) sub = (starts_with (d # txt) sub \<or> contains txt sub)"



section \<open>\<^verbatim>\<open>ArrayBoundsRule\<close> of \<^verbatim>\<open>rules/memory_rules.py\<close>\<close>

text \<open>
  A loop \<^verbatim>\<open>for x in xs:\<close> whose body appends the issues it finds to \<^verbatim>\<open>issues\<close>.
\<close>

fun for_each :: "('a \<Rightarrow> Issue list) \<Rightarrow> 'a list \<Rightarrow> Issue list \<Rightarrow> Issue list" where
  "for_each body [] issues = issues"
| "for_each body (x # xs) issues = for_each body xs (issues @ body x)"










section \<open>Parsed files\<close>

text \<open>\<^verbatim>\<open>text.split(sep)\<close> for a separator of one character.\<close>

fun split_on :: "char \<Rightarrow> string \<Rightarrow> string list" where
  "split_on sep [] = [[]]"
| "split_on sep (c # cs) =
     (if c = sep then [] # split_on sep cs
      else (case split_on sep cs of
              [] \<Rightarrow> [[c]]
            | l # ls \<Rightarrow> (c # l) # ls))"

text \<open>
  The dictionary that \<^verbatim>\<open>CodeParser.parse_file\<close> builds from the path, the text and
  the root of the tree that tree-sitter made of the text.
\<close>

definition parse_file :: "string \<Rightarrow> string \<Rightarrow> node \<Rightarrow> file_info" where
  "parse_file file_path txt tree_root =
     \<lparr>path = file_path, content = txt, root_node = tree_root, lines = split_on (CHR 0x0A) txt\<rparr>"

subsection \<open>Example files\<close>


section \<open>\<^verbatim>\<open>AssignmentInConditionRule\<close> of \<^verbatim>\<open>rules/logic_rules.py\<close>\<close>

text \<open>
  \<^verbatim>\<open>_find_condition_in_statement\<close>: the first child that is a parenthesized
  expression.
\<close>

fun find_condition_in_statement :: "node_ref list \<Rightarrow> node_ref option" where
  "find_condition_in_statement [] = None"
| "find_condition_in_statement (child # rest) =
     (if node_type (snd child) = ''parenthesized_expression'' then Some child
      else find_condition_in_statement rest)"

text \<open>\<^verbatim>\<open>_is_simple_assignment\<close>, on the text of the assignment.\<close>

definition is_simple_assignment :: "string \<Rightarrow> bool" where
  "is_simple_assignment assign_text =
     (contains assign_text ''='' \<and> \<not> contains assign_text ''=='' \<and> \<not> contains assign_text ''!=''
      \<and> \<not> contains assign_text ''+='' \<and> \<not> contains assign_text ''-=''
      \<and> \<not> contains assign_text ''*='' \<and> \<not> contains assign_text ''/='')"

text \<open>
  \<^verbatim>\<open>_is_intentional_assignment\<close>: the parent of the assignment and the parent of
  that parent are both parenthesized expressions.
\<close>

definition is_intentional_assignment :: "node \<Rightarrow> node_ref \<Rightarrow> bool" where
  "is_intentional_assignment root assign_node =
     (case parent_of root assign_node of
        None \<Rightarrow> False
      | Some parent \<Rightarrow>
          node_type (snd parent) = ''parenthesized_expression''
          \<and> (case parent_of root parent of
                None \<Rightarrow> False
              | Some grandparent \<Rightarrow> node_type (snd grandparent) = ''parenthesized_expression''))"

text \<open>The body of the inner loop of \<^verbatim>\<open>check\<close>, for one assignment expression.\<close>

definition check_assignment :: "BaseRule \<Rightarrow> file_info \<Rightarrow> node_ref \<Rightarrow> Issue list" where
  "check_assignment self file_info assign_node =
     (if is_simple_assignment (get_node_text (snd assign_node) (content file_info)) then
        (if \<not> is_intentional_assignment (root_node file_info) assign_node then
           [create_issue self file_info (snd assign_node)
              ([CHR 0xE6, CHR 0x9D, CHR 0xA1, CHR 0xE4, CHR 0xBB, CHR 0xB6, CHR 0xE8, CHR 0xAF, CHR
            0xAD, CHR 0xE5, CHR 0x8F, CHR 0xA5, CHR 0xE4, CHR 0xB8, CHR 0xAD, CHR 0xE5, CHR
            0x8F, CHR 0x91, CHR 0xE7, CHR 0x8E, CHR 0xB0, CHR 0xE8, CHR 0xB5, CHR 0x8B, CHR
            0xE5, CHR 0x80, CHR 0xBC, CHR 0xE6, CHR 0x93, CHR 0x8D, CHR 0xE4, CHR 0xBD, CHR
            0x9C, CHR 0xEF, CHR 0xBC, CHR 0x8C, CHR 0xE5, CHR 0x8F, CHR 0xAF, CHR 0xE8, CHR
            0x83, CHR 0xBD, CHR 0xE6, CHR 0x98, CHR 0xAF, CHR 0xE8, CHR 0xAF, CHR 0xAF, CHR
            0xE5, CHR 0x86, CHR 0x99, CHR 0xE4, CHR 0xBA, CHR 0x86] @ '' '' @ [CHR 0x27] @ ''=''
            @ [CHR 0x27] @ '' '' @ [CHR 0xE8, CHR 0x80, CHR 0x8C, CHR 0xE4, CHR 0xB8, CHR 0x8D,
            CHR 0xE6, CHR 0x98, CHR 0xAF] @ '' '' @ [CHR 0x27] @ ''=='' @ [CHR 0x27])
              ([CHR 0xE6, CHR 0xA3, CHR 0x80, CHR 0xE6, CHR 0x9F, CHR 0xA5, CHR 0xE6, CHR 0x98, CHR
            0xAF, CHR 0xE5, CHR 0x90, CHR 0xA6, CHR 0xE5, CHR 0xBA, CHR 0x94, CHR 0xE8, CHR
            0xAF, CHR 0xA5, CHR 0xE4, CHR 0xBD, CHR 0xBF, CHR 0xE7, CHR 0x94, CHR 0xA8] @ '' ''
            @ [CHR 0x27] @ ''=='' @ [CHR 0x27] @ '' '' @ [CHR 0xE8, CHR 0xBF, CHR 0x9B, CHR
            0xE8, CHR 0xA1, CHR 0x8C, CHR 0xE6, CHR 0xAF, CHR 0x94, CHR 0xE8, CHR 0xBE, CHR
            0x83, CHR 0xEF, CHR 0xBC, CHR 0x8C, CHR 0xE6, CHR 0x88, CHR 0x96, CHR 0xE7, CHR
            0x94, CHR 0xA8, CHR 0xE6, CHR 0x8B, CHR 0xAC, CHR 0xE5, CHR 0x8F, CHR 0xB7, CHR
            0xE6, CHR 0x98, CHR 0x8E, CHR 0xE7, CHR 0xA1, CHR 0xAE, CHR 0xE8, CHR 0xA1, CHR
            0xA8, CHR 0xE7, CHR 0xA4, CHR 0xBA, CHR 0xE6, CHR 0x9C, CHR 0x89, CHR 0xE6, CHR
            0x84, CHR 0x8F, CHR 0xE8, CHR 0xB5, CHR 0x8B, CHR 0xE5, CHR 0x80, CHR 0xBC])
              None]
         else [])
      else [])"

text \<open>The body of the outer loop, for one \<^verbatim>\<open>if\<close>, \<^verbatim>\<open>while\<close> or \<^verbatim>\<open>for\<close> statement.\<close>

definition check_condition_statement :: "BaseRule \<Rightarrow> file_info \<Rightarrow> node_ref \<Rightarrow> Issue list" where
  "check_condition_statement self file_info stmt_node =
     (case find_condition_in_statement (children_of stmt_node) of
        None \<Rightarrow> []
      | Some condition_node \<Rightarrow>
          for_each (check_assignment self file_info)
            (find_nodes_by_type condition_node ''assignment_expression'') [])"

definition AssignmentInConditionRule_check :: "BaseRule \<Rightarrow> file_info \<Rightarrow> Issue list" where
  "AssignmentInConditionRule_check self file_info =
     (let if_nodes = find_nodes_by_type (root_ref file_info) ''if_statement'';
          while_nodes = find_nodes_by_type (root_ref file_info) ''while_statement'';
          for_nodes = find_nodes_by_type (root_ref file_info) ''for_statement'';
          condition_statements = if_nodes @ while_nodes @ for_nodes
      in for_each (check_condition_statement self file_info) condition_statements [])"

text \<open>
  The file \<^verbatim>\<open>assign.c\<close>: \<^verbatim>\<open>if (x = 5) { y = 1; }\<close>, with the tree of tree-sitter's C grammar.
\<close>

definition assign_in_condition_file :: file_info where
  "assign_in_condition_file =
     parse_file ''assign.c''
       (''if (x = 5) { y = 1; }\<newline>'')
       (Node ''translation_unit'' 0 22 (0, 0)
          [Node ''if_statement'' 0 21 (0, 0)
             [Node ''if'' 0 2 (0, 0) [],
              Node ''parenthesized_expression'' 3 10 (0, 3)
                [Node ''('' 3 4 (0, 3) [],
                 Node ''assignment_expression'' 4 9 (0, 4)
                   [Node ''identifier'' 4 5 (0, 4) [],
                    Node ''='' 6 7 (0, 6) [],
                    Node ''number_literal'' 8 9 (0, 8) []],
                 Node '')'' 9 10 (0, 9) []],
              Node ''compound_statement'' 11 21 (0, 11)
                [Node ''{'' 11 12 (0, 11) [],
                 Node ''expression_statement'' 13 19 (0, 13)
                   [Node ''assignment_expression'' 13 18 (0, 13)
                      [Node ''identifier'' 13 14 (0, 13) [],
                       Node ''='' 15 16 (0, 15) [],
                       Node ''number_literal'' 17 18 (0, 17) []],
                    Node '';'' 18 19 (0, 18) []],
                 Node ''}'' 20 21 (0, 20) []]]])"

text \<open>
  The file \<^verbatim>\<open>compare.c\<close>: \<^verbatim>\<open>if (x == 5) { y = 1; }\<close>.
\<close>

definition compare_in_condition_file :: file_info where
  "compare_in_condition_file =
     parse_file ''compare.c''
       (''if (x == 5) { y = 1; }\<newline>'')
       (Node ''translation_unit'' 0 23 (0, 0)
          [Node ''if_statement'' 0 22 (0, 0)
             [Node ''if'' 0 2 (0, 0) [],
              Node ''parenthesized_expression'' 3 11 (0, 3)
                [Node ''('' 3 4 (0, 3) [],
                 Node ''binary_expression'' 4 10 (0, 4)
                   [Node ''identifier'' 4 5 (0, 4) [],
                    Node ''=='' 6 8 (0, 6) [],
                    Node ''number_literal'' 9 10 (0, 9) []],
                 Node '')'' 10 11 (0, 10) []],
              Node ''compound_statement'' 12 22 (0, 12)
                [Node ''{'' 12 13 (0, 12) [],
                 Node ''expression_statement'' 14 20 (0, 14)
                   [Node ''assignment_expression'' 14 19 (0, 14)
                      [Node ''identifier'' 14 15 (0, 14) [],
                       Node ''='' 16 17 (0, 16) [],
                       Node ''number_literal'' 18 19 (0, 18) []],
                    Node '';'' 19 20 (0, 19) []],
                 Node ''}'' 21 22 (0, 21) []]]])"

text \<open>
  The file \<^verbatim>\<open>checked.c\<close>: \<^verbatim>\<open>if ((x = 5) != 0) { y = 1; }\<close>. The assignment is in
  parentheses of its own, which in turn are the left operand of the comparison.
\<close>

definition assign_compared_file :: file_info where
  "assign_compared_file =
     parse_file ''checked.c''
       (''if ((x = 5) != 0) { y = 1; }\<newline>'')
       (Node ''translation_unit'' 0 29 (0, 0)
          [Node ''if_statement'' 0 28 (0, 0)
             [Node ''if'' 0 2 (0, 0) [],
              Node ''parenthesized_expression'' 3 17 (0, 3)
                [Node ''('' 3 4 (0, 3) [],
                 Node ''binary_expression'' 4 16 (0, 4)
                   [Node ''parenthesized_expression'' 4 11 (0, 4)
                      [Node ''('' 4 5 (0, 4) [],
                       Node ''assignment_expression'' 5 10 (0, 5)
                         [Node ''identifier'' 5 6 (0, 5) [],
                          Node ''='' 7 8 (0, 7) [],
                          Node ''number_literal'' 9 10 (0, 9) []],
                       Node '')'' 10 11 (0, 10) []],
                    Node ''!='' 12 14 (0, 12) [],
                    Node ''number_literal'' 15 16 (0, 15) []],
                 Node '')'' 16 17 (0, 16) []],
              Node ''compound_statement'' 18 28 (0, 18)
                [Node ''{'' 18 19 (0, 18) [],
                 Node ''expression_statement'' 20 26 (0, 20)
                   [Node ''assignment_expression'' 20 25 (0, 20)
                      [Node ''identifier'' 20 21 (0, 20) [],
                       Node ''='' 22 23 (0, 22) [],
                       Node ''number_literal'' 24 25 (0, 24) []],
                    Node '';'' 25 26 (0, 25) []],
                 Node ''}'' 27 28 (0, 27) []]]])"

text \<open>
  The file \<^verbatim>\<open>doubled.c\<close>: \<^verbatim>\<open>if ((x = 5)) { y = 1; }\<close>.
\<close>

definition assign_doubled_file :: file_info where
  "assign_doubled_file =
     parse_file ''doubled.c''
       (''if ((x = 5)) { y = 1; }\<newline>'')
       (Node ''translation_unit'' 0 24 (0, 0)
          [Node ''if_statement'' 0 23 (0, 0)
             [Node ''if'' 0 2 (0, 0) [],
              Node ''parenthesized_expression'' 3 12 (0, 3)
                [Node ''('' 3 4 (0, 3) [],
                 Node ''parenthesized_expression'' 4 11 (0, 4)
                   [Node ''('' 4 5 (0, 4) [],
                    Node ''assignment_expression'' 5 10 (0, 5)
                      [Node ''identifier'' 5 6 (0, 5) [],
                       Node ''='' 7 8 (0, 7) [],
                       Node ''number_literal'' 9 10 (0, 9) []],
                    Node '')'' 10 11 (0, 10) []],
                 Node '')'' 11 12 (0, 11) []],
              Node ''compound_statement'' 13 23 (0, 13)
                [Node ''{'' 13 14 (0, 13) [],
                 Node ''expression_statement'' 15 21 (0, 15)
                   [Node ''assignment_expression'' 15 20 (0, 15)
                      [Node ''identifier'' 15 16 (0, 15) [],
                       Node ''='' 17 18 (0, 17) [],
                       Node ''number_literal'' 19 20 (0, 19) []],
                    Node '';'' 20 21 (0, 20) []],
                 Node ''}'' 22 23 (0, 22) []]]])"

section \<open>\<^verbatim>\<open>DivisionByZeroRule\<close> of \<^verbatim>\<open>rules/logic_rules.py\<close>\<close>









section \<open>\<^verbatim>\<open>SwitchFallthroughRule\<close> of \<^verbatim>\<open>rules/logic_rules.py\<close>\<close>



text \<open>
  The line (row) on which a node starts. The variable \<^verbatim>\<open>case_node\<close> of the source is
  \<open>the_case\<close> below.
\<close>

definition start_line :: "node_ref \<Rightarrow> nat" where
  "start_line nd = fst (start_point (snd nd))"














section \<open>Reference formatting\<close>

text \<open>
  C9 (as stated in the specification, refuted): the formatter would return the non-empty
  fields among book, chapter and page whenever at least one of them is non-empty. A
  reference with an empty book and a chapter is formatted as the empty string.
\<close>

theorem format_reference_no_book_counterexample:
  "ref_chapter \<lparr>ref_book = [], ref_chapter = ''Ch1'', ref_page = ''P8'', ref_url = [], ref_quote = []\<rparr> \<noteq> []
   \<and> format_reference \<lparr>ref_book = [], ref_chapter = ''Ch1'', ref_page = ''P8'', ref_url = [], ref_quote = []\<rparr> = []"
  by (simp add: format_reference_def)

text \<open>
  C9 (amended): a reference without a book is formatted as the empty string, whatever its
  chapter and page; a reference with a book is formatted as the non-empty fields among
  book, chapter and page, in that order, joined by \<^verbatim>\<open>" - "\<close>.
\<close>

theorem format_reference_spec:
  "format_reference ref =
     (if ref_book ref = [] then []
      else join '' - '' (filter (\<lambda>s. s \<noteq> []) [ref_book ref, ref_chapter ref, ref_page ref]))"
  by (simp add: format_reference_def Let_def)

theorem format_reference_spec_witness:
  "format_reference \<lparr>ref_book = ''K&R'', ref_chapter = [], ref_page = ''P8'', ref_url = [], ref_quote = []\<rparr> = ''K&R - P8''
   \<and> format_reference \<lparr>ref_book = [], ref_chapter = [], ref_page = [], ref_url = [], ref_quote = []\<rparr> = []"
  using format_reference_spec [of "\<lparr>ref_book = ''K&R'', ref_chapter = [], ref_page = ''P8'', ref_url = [], ref_quote = []\<rparr>"]
        format_reference_spec [of "\<lparr>ref_book = [], ref_chapter = [], ref_page = [], ref_url = [], ref_quote = []\<rparr>"]
  by simp

section \<open>The snippet of an issue\<close>

lemma snippet_loop_append:
  "snippet_loop ls line_num idxs code_lines = code_lines @ map (snippet_line ls line_num) idxs"
  by (induction idxs arbitrary: code_lines) simp_all

lemma length_str_nat_le: "n < 10 ^ k \<Longrightarrow> 0 < k \<Longrightarrow> length (str_nat n) \<le> k"
proof (induction k arbitrary: n)
  case 0
  then show ?case by simp
next
  case (Suc k)
  show ?case
  proof (cases "n < 10")
    case True
    then show ?thesis by (simp add: str_nat.simps [of n])
  next
    case False
    then have k: "0 < k" using Suc.prems by (cases k) auto
    have "n div 10 < 10 ^ k" using Suc.prems by (simp add: less_mult_imp_div_less mult.commute)
    then have "length (str_nat (n div 10)) \<le> k" using Suc.IH k by blast
    then show ?thesis using False by (simp add: str_nat.simps [of n])
  qed
qed

lemma str_nat_digits: "set (str_nat n) \<subseteq> set ''0123456789''"
proof (induction n rule: str_nat.induct)
  case (1 n)
  have d: "\<And>k. k < 10 \<Longrightarrow> ''0123456789'' ! k \<in> set ''0123456789''"
    by (rule nth_mem) simp
  show ?case
  proof (cases "n < 10")
    case True
    then show ?thesis using d [of n] by (subst str_nat.simps) simp
  next
    case False
    have "n mod 10 < 10" by simp
    then show ?thesis using False 1 d [of "n mod 10"] by (subst str_nat.simps) simp
  qed
qed

text \<open>
  C7: the snippet built by \<^verbatim>\<open>create_issue\<close> for a node starting on the 1-based line
  \<open>line_num\<close> is made of the source lines with the 0-based indices from
  \<open>max 0 (line_num - 3)\<close> to \<open>min line_count (line_num + 2)\<close> exclusive, joined by
  newlines; all of them are lines of the file, and they are the two lines before the
  triggering line, that line and the two lines after it when the file has them. The
  triggering line starts with \<^verbatim>\<open>>>> \<close> and every other line with four blanks; then
  comes the 1-based line number in decimal digits, padded on the left with blanks to four
  columns (exactly four up to line 9999), a colon, a blank and the source line.
\<close>

theorem create_issue_snippet:
  "(let line_num = int (fst (start_point nd)) + 1;
        line_count = int (length (lines fi));
        window = [max 0 (line_num - 3) .. min line_count (line_num + 2) - 1]
    in code_snippet (create_issue self fi nd msg sugg custom_severity) =
         join [CHR 0x0A]
           (map (\<lambda>i. (if i = line_num - 1 then ''>>> '' else ''    '')
                      @ format_4d (i + 1) @ '': '' @ lines fi ! nat i) window)
       \<and> (\<forall>i \<in> set window. 0 \<le> i \<and> i < line_count)
       \<and> (3 \<le> line_num \<and> line_num + 2 \<le> line_count \<longrightarrow>
            window = [line_num - 3, line_num - 2, line_num - 1, line_num, line_num + 1])
       \<and> (\<forall>i \<in> set window.
            format_4d (i + 1) =
              replicate (4 - length (str_nat (nat (i + 1)))) CHR '' '' @ str_nat (nat (i + 1))
            \<and> set (str_nat (nat (i + 1))) \<subseteq> set ''0123456789''
            \<and> (i + 1 < 10000 \<longrightarrow> length (format_4d (i + 1)) = 4)))"
proof -
  define line_num where "line_num = int (fst (start_point nd)) + 1"
  define line_count where "line_count = int (length (lines fi))"
  define window where "window = [max 0 (line_num - 3) .. min line_count (line_num + 2) - 1]"
  have snip: "code_snippet (create_issue self fi nd msg sugg custom_severity) =
         join [CHR 0x0A]
           (map (\<lambda>i. (if i = line_num - 1 then ''>>> '' else ''    '')
                      @ format_4d (i + 1) @ '': '' @ lines fi ! nat i) window)"
  proof -
    have sl: "snippet_line (lines fi) line_num =
        (\<lambda>i. (if i = line_num - 1 then ''>>> '' else ''    '')
                      @ format_4d (i + 1) @ '': '' @ lines fi ! nat i)"
      by (rule ext) (simp add: snippet_line_def)
    have "code_snippet (create_issue self fi nd msg sugg custom_severity) =
        join [CHR 0x0A] (map (snippet_line (lines fi) line_num) window)"
      by (simp add: create_issue_def Let_def snippet_loop_append py_range_def
          line_num_def line_count_def window_def)
    then show ?thesis by (simp only: sl)
  qed
  have range: "\<forall>i \<in> set window. 0 \<le> i \<and> i < line_count"
    by (auto simp: window_def)
  have five: "3 \<le> line_num \<and> line_num + 2 \<le> line_count \<longrightarrow>
            window = [line_num - 3, line_num - 2, line_num - 1, line_num, line_num + 1]"
  proof
    assume a: "3 \<le> line_num \<and> line_num + 2 \<le> line_count"
    then have "max 0 (line_num - 3) = line_num - 3" "min line_count (line_num + 2) - 1 = line_num + 1"
      by simp_all
    then have "window = [line_num - 3 .. line_num + 1]" by (simp only: window_def)
    also have "\<dots> = [line_num - 3, line_num - 2, line_num - 1, line_num, line_num + 1]"
      by (simp add: upto_rec1 [of "line_num - 3"] upto_rec1 [of "line_num - 2"] upto_rec1 [of "line_num - 1"] upto_rec1 [of "line_num"] upto_rec1 [of "line_num + 1"])
    finally show "window = [line_num - 3, line_num - 2, line_num - 1, line_num, line_num + 1]" .
  qed
  have num: "\<forall>i \<in> set window.
            format_4d (i + 1) =
              replicate (4 - length (str_nat (nat (i + 1)))) CHR '' '' @ str_nat (nat (i + 1))
            \<and> set (str_nat (nat (i + 1))) \<subseteq> set ''0123456789''
            \<and> (i + 1 < 10000 \<longrightarrow> length (format_4d (i + 1)) = 4)"
  proof
    fix i assume "i \<in> set window"
    then have i: "0 \<le> i" using range by blast
    have f: "format_4d (i + 1) =
              replicate (4 - length (str_nat (nat (i + 1)))) CHR '' '' @ str_nat (nat (i + 1))"
      using i by (simp add: format_4d_def str_int_def)
    have l: "i + 1 < 10000 \<longrightarrow> length (format_4d (i + 1)) = 4"
    proof
      assume "i + 1 < 10000"
      then have "nat (i + 1) < 10 ^ 4" using i by simp
      then have "length (str_nat (nat (i + 1))) \<le> 4" by (rule length_str_nat_le) simp
      then show "length (format_4d (i + 1)) = 4" by (simp add: f)
    qed
    show "format_4d (i + 1) =
              replicate (4 - length (str_nat (nat (i + 1)))) CHR '' '' @ str_nat (nat (i + 1))
            \<and> set (str_nat (nat (i + 1))) \<subseteq> set ''0123456789''
            \<and> (i + 1 < 10000 \<longrightarrow> length (format_4d (i + 1)) = 4)"
      using f l str_nat_digits by blast
  qed
  show ?thesis
    unfolding Let_def using snip range five num
    by (simp only: line_num_def line_count_def window_def) 
qed

theorem create_issue_snippet_witness:
  "code_snippet (create_issue DivisionByZeroRule
      \<lparr>path = ''a.c'', content = ''a\<newline>b\<newline>c\<newline>d\<newline>e\<newline>f'', root_node = Node ''translation_unit'' 0 11 (0, 0) [],
       lines = [''a'', ''b'', ''c'', ''d'', ''e'', ''f'']\<rparr>
      (Node ''identifier'' 6 7 (3, 0) []) [] [] None)
   = ''       2: b\<newline>       3: c\<newline>>>>    4: d\<newline>       5: e\<newline>       6: f''
   \<and> (3::int) \<le> 4 \<and> (4::int) + 2 \<le> 6 \<and> (4::int) < 10000 \<and> length (format_4d 4) = 4"
proof -
  have len: "length (format_4d 4) = 4" by code_simp
  have snip: "code_snippet (create_issue DivisionByZeroRule
      \<lparr>path = ''a.c'', content = ''a\<newline>b\<newline>c\<newline>d\<newline>e\<newline>f'', root_node = Node ''translation_unit'' 0 11 (0, 0) [],
       lines = [''a'', ''b'', ''c'', ''d'', ''e'', ''f'']\<rparr>
      (Node ''identifier'' 6 7 (3, 0) []) [] [] None)
   = ''       2: b\<newline>       3: c\<newline>>>>    4: d\<newline>       5: e\<newline>       6: f''"
    by code_simp
  show ?thesis
    using len snip create_issue_snippet [of "Node ''identifier'' 6 7 (3, 0) []"
      "\<lparr>path = ''a.c'', content = ''a\<newline>b\<newline>c\<newline>d\<newline>e\<newline>f'', root_node = Node ''translation_unit'' 0 11 (0, 0) [],
       lines = [''a'', ''b'', ''c'', ''d'', ''e'', ''f'']\<rparr>" DivisionByZeroRule "[]" "[]" None]
    by simp
qed

section \<open>Export and import of the configuration\<close>

text \<open>
  The operations of the engine that change the rule list keep the rule identifiers
  distinct: \<^verbatim>\<open>add_rule\<close> removes a rule of the same identifier before it appends.
\<close>

lemma get_rule_by_id_None: "get_rule_by_id xs rid = None \<longleftrightarrow> rid \<notin> rule_id ` set xs"
  by (induction xs) auto

lemma remove_rule_distinct:
  "distinct (map rule_id (rules self)) \<Longrightarrow> distinct (map rule_id (rules (remove_rule self rid)))"
  by (simp add: remove_rule_def distinct_map_filter)

lemma add_rule_distinct:
  "distinct (map rule_id (rules self)) \<Longrightarrow> distinct (map rule_id (rules (add_rule self rule)))"
proof (cases "get_rule_by_id (rules self) (rule_id rule)")
  case None
  assume "distinct (map rule_id (rules self))"
  then show ?thesis using None get_rule_by_id_None [of "rules self" "rule_id rule"]
    by (simp add: add_rule_def)
next
  case (Some old)
  assume "distinct (map rule_id (rules self))"
  then show ?thesis using Some
    by (auto simp: add_rule_def remove_rule_def distinct_map_filter)
qed

lemma Severity_of_value_value: "Severity_of_value (Severity_value s) = Some s"
  by (cases s) (simp_all add: Severity_of_value_def)

lemma export_loop_other:
  "k \<notin> rule_id ` set rs \<Longrightarrow> export_loop rs m k = m k"
  by (induction rs arbitrary: m) auto

lemma export_loop_lookup:
  "distinct (map rule_id rs) \<Longrightarrow> r \<in> set rs \<Longrightarrow>
   export_loop rs m (rule_id r) =
     Some \<lparr>s_enabled = Some (enabled r), s_severity = Some (Severity_value (severity r)),
           s_category = Some (category r), s_config = Some (config r)\<rparr>"
proof (induction rs arbitrary: m)
  case Nil
  then show ?case by simp
next
  case (Cons a rs)
  show ?case
  proof (cases "r = a")
    case True
    have "rule_id a \<notin> rule_id ` set rs" using Cons.prems(1) by simp
    then show ?thesis using True by (simp add: export_loop_other)
  next
    case False
    then have "r \<in> set rs" using Cons.prems(2) by simp
    moreover have "distinct (map rule_id rs)" using Cons.prems(1) by simp
    ultimately show ?thesis using Cons.IH by simp
  qed
qed

lemma enabled_ids_member:
  "distinct (map rule_id rs) \<Longrightarrow> r \<in> set rs \<Longrightarrow>
   rule_id r \<in> set (map rule_id (filter enabled rs)) \<longleftrightarrow> enabled r"
proof
  assume d: "distinct (map rule_id rs)" and r: "r \<in> set rs"
    and "rule_id r \<in> set (map rule_id (filter enabled rs))"
  then obtain r' where r': "r' \<in> set rs" "enabled r'" "rule_id r' = rule_id r" by auto
  have "inj_on rule_id (set rs)" using d by (simp add: distinct_map)
  then have "r' = r" using r r' by (auto dest: inj_onD)
  then show "enabled r" using r' by simp
next
  assume "r \<in> set rs" "enabled r"
  then show "rule_id r \<in> set (map rule_id (filter enabled rs))" by auto
qed

lemma import_loop_map: "import_loop en rs xs = map (import_rule en rs) xs"
  by (induction xs) simp_all

lemma import_rule_id: "rule_id (import_rule en rs r) = rule_id r"
  by (simp add: import_rule_def Let_def split: option.splits)

lemma import_rule_restores:
  assumes "distinct (map rule_id rs)" "r \<in> set rs" "rule_id r' = rule_id r"
  shows "(\<lambda>x. (enabled x, severity x, config x))
           (import_rule (map rule_id (filter enabled rs)) (export_loop rs Map.empty) r')
         = (enabled r, severity r, config r)"
  using export_loop_lookup [OF assms(1,2), of Map.empty] enabled_ids_member [OF assms(1,2)] assms(3)
  by (simp add: import_rule_def Let_def Severity_of_value_value)

text \<open>
  C2: in a registry whose rule identifiers are distinct (the invariant of the registry),
  exporting the configuration to a path and importing it from that path, into the same
  registry after any changes of its flags, severities and configs, or into another
  registry with the same rule set, raises nothing and gives every rule exactly the
  enabled flag, the severity and the config mapping it had when the export was made.
\<close>

theorem export_import_round_trip:
  assumes "distinct (map rule_id (rules exported))"
    and "map rule_id (rules importing) = map rule_id (rules exported)"
  shows "import_config importing (export_config exported cwd fs config_path) config_path
           = (importing\<lparr>rules := rules (fst (import_config importing
                 (export_config exported cwd fs config_path) config_path))\<rparr>, None)
         \<and> map (\<lambda>rule. (rule_id rule, enabled rule, severity rule, config rule))
               (rules (fst (import_config importing
                 (export_config exported cwd fs config_path) config_path)))
           = map (\<lambda>rule. (rule_id rule, enabled rule, severity rule, config rule)) (rules exported)"
proof -
  let ?en = "map rule_id (filter enabled (rules exported))"
  let ?rs = "export_loop (rules exported) Map.empty"
  have res: "import_config importing (export_config exported cwd fs config_path) config_path
      = (importing\<lparr>rules := map (import_rule ?en ?rs) (rules importing)\<rparr>, None)"
    by (simp add: import_config_def export_config_def get_default_def import_loop_map)
  have len: "length (rules importing) = length (rules exported)"
    using assms(2) by (metis length_map)
  have "map (\<lambda>rule. (rule_id rule, enabled rule, severity rule, config rule))
          (map (import_rule ?en ?rs) (rules importing))
        = map (\<lambda>rule. (rule_id rule, enabled rule, severity rule, config rule)) (rules exported)"
  proof (rule nth_equalityI)
    show "length (map (\<lambda>rule. (rule_id rule, enabled rule, severity rule, config rule))
          (map (import_rule ?en ?rs) (rules importing)))
        = length (map (\<lambda>rule. (rule_id rule, enabled rule, severity rule, config rule)) (rules exported))"
      using len by simp
  next
    fix i
    assume "i < length (map (\<lambda>rule. (rule_id rule, enabled rule, severity rule, config rule))
          (map (import_rule ?en ?rs) (rules importing)))"
    then have i: "i < length (rules importing)" "i < length (rules exported)" using len by simp_all
    have ids: "rule_id (rules importing ! i) = rule_id (rules exported ! i)"
      using assms(2) i by (metis nth_map)
    have mem: "rules exported ! i \<in> set (rules exported)" using i by simp
    from import_rule_restores [OF assms(1) mem ids]
    show "map (\<lambda>rule. (rule_id rule, enabled rule, severity rule, config rule))
          (map (import_rule ?en ?rs) (rules importing)) ! i
        = map (\<lambda>rule. (rule_id rule, enabled rule, severity rule, config rule)) (rules exported) ! i"
      using i ids by (simp add: import_rule_id)
  qed
  then show ?thesis by (simp add: res)
qed


theorem export_import_round_trip_witness:
  "map (\<lambda>rule. (rule_id rule, enabled rule, severity rule, config rule))
     (rules (fst (import_config
        \<lparr>rules = [ArrayBoundsRule, DivisionByZeroRule\<lparr>enabled := False\<rparr>], rule_templates = Map.empty\<rparr>
        (export_config
           \<lparr>rules = [ArrayBoundsRule\<lparr>enabled := False, severity := SUGGESTION,
                        config := JObj [(''max_index'', JInt 3)]\<rparr>, DivisionByZeroRule],
            rule_templates = Map.empty\<rparr>
           ''/home/user'' Map.empty ''rules.json'')
        ''rules.json'')))
   = [(''C001'', False, SUGGESTION, JObj [(''max_index'', JInt 3)]), (''L005'', True, CRITICAL, JObj [])]"
  using export_import_round_trip
    [of "\<lparr>rules = [ArrayBoundsRule\<lparr>enabled := False, severity := SUGGESTION,
                        config := JObj [(''max_index'', JInt 3)]\<rparr>, DivisionByZeroRule],
            rule_templates = Map.empty\<rparr>"
        "\<lparr>rules = [ArrayBoundsRule, DivisionByZeroRule\<lparr>enabled := False\<rparr>], rule_templates = Map.empty\<rparr>"
        "''/home/user''" Map.empty "''rules.json''"]
  by (simp add: ArrayBoundsRule_def DivisionByZeroRule_def)

section \<open>Applying a template\<close>

lemma apply_template_loop_length:
  "length (fst (apply_template_loop en rs xs)) = length xs"
  by (induction xs) (auto simp: Let_def split: option.splits prod.splits)

lemma apply_template_loop_ids:
  "map rule_id (fst (apply_template_loop en rs xs)) = map rule_id xs"
  by (induction xs) (auto simp: Let_def split: option.splits prod.splits)

lemma apply_template_loop_severity_kept:
  "i < length xs \<Longrightarrow> rs (rule_id (xs ! i)) = None \<Longrightarrow>
   severity (fst (apply_template_loop en rs xs) ! i) = severity (xs ! i)"
proof (induction xs arbitrary: i)
  case Nil
  then show ?case by simp
next
  case (Cons a xs)
  then show ?case
    by (cases i) (auto simp: Let_def split: option.splits prod.splits)
qed

lemma apply_template_loop_enabled:
  "snd (apply_template_loop en rs xs) = None \<Longrightarrow> i < length xs \<Longrightarrow>
   enabled (fst (apply_template_loop en rs xs) ! i) = (rule_id (xs ! i) \<in> set en)"
proof (induction xs arbitrary: i)
  case Nil
  then show ?case by simp
next
  case (Cons a xs)
  then show ?case
    by (cases i) (auto simp: Let_def split: option.splits prod.splits)
qed

lemma apply_template_loop_raises:
  "snd (apply_template_loop en rs xs) = Some x \<Longrightarrow>
   \<exists>r v. r \<in> set xs \<and> rs (rule_id r) \<noteq> None \<and> s_severity (the (rs (rule_id r))) = Some v
       \<and> Severity_of_value v = None \<and> x = ValueError v"
proof (induction xs)
  case Nil
  then show ?case by simp
next
  case (Cons a xs)
  then show ?case
    by (auto simp: Let_def split: option.splits prod.splits)
qed

lemma apply_template_loop_valid:
  "(\<forall>r \<in> set xs. \<forall>st v. rs (rule_id r) = Some st \<longrightarrow> s_severity st = Some v \<longrightarrow> Severity_of_value v \<noteq> None)
   \<Longrightarrow> snd (apply_template_loop en rs xs) = None"
  using apply_template_loop_raises [of en rs xs]
  by (cases "snd (apply_template_loop en rs xs)") auto

lemma apply_template_well_formed:
  assumes "rule_templates self name = Some t"
    and "\<forall>r \<in> set (rules self). \<forall>st v. get_default (t_rule_settings t) Map.empty (rule_id r) = Some st \<longrightarrow>
           s_severity st = Some v \<longrightarrow> Severity_of_value v \<noteq> None"
    and "i < length (rules self)"
  shows "enabled (rules (fst (apply_template self name)) ! i)
           = (rule_id (rules self ! i) \<in> set (get_default (t_enabled_rules t) []))"
    and "get_default (t_rule_settings t) Map.empty (rule_id (rules self ! i)) = None \<Longrightarrow>
         severity (rules (fst (apply_template self name)) ! i) = severity (rules self ! i)"
proof -
  let ?en = "get_default (t_enabled_rules t) []"
  let ?rs = "get_default (t_rule_settings t) Map.empty"
  have none: "snd (apply_template_loop ?en ?rs (rules self)) = None"
    using assms(2) by (rule apply_template_loop_valid)
  have r: "rules (fst (apply_template self name)) = fst (apply_template_loop ?en ?rs (rules self))"
    using assms(1) none
    by (cases "apply_template_loop ?en ?rs (rules self)")
       (simp add: apply_template_def Let_def split: option.splits)
  show "enabled (rules (fst (apply_template self name)) ! i) = (rule_id (rules self ! i) \<in> set ?en)"
    using apply_template_loop_enabled [OF none assms(3)] r by simp
  show "severity (rules (fst (apply_template self name)) ! i) = severity (rules self ! i)"
    if "?rs (rule_id (rules self ! i)) = None"
    using apply_template_loop_severity_kept [of i "rules self" ?rs ?en] assms(3) that r by simp
qed

text \<open>
  C1: \<^verbatim>\<open>apply_template\<close> with a template of the registry whose settings give the
  first rule a severity that is no value of \<^verbatim>\<open>Severity\<close> (here the English
  \<^verbatim>\<open>"Critical"\<close>). The call raises \<^verbatim>\<open>ValueError\<close> at the first rule; the second
  rule is still enabled, although its identifier is not in the template's (empty) list of
  enabled rules. For a template whose severities are all valid, the two lemmas of
  \<open>apply_template_well_formed\<close> give what the claim says.
\<close>

theorem apply_template_invalid_severity:
  "apply_template
     \<lparr>rules = [ArrayBoundsRule, AssignmentInConditionRule],
      rule_templates =
        [''strict'' \<mapsto>
           \<lparr>t_name = Some ''Strict'', t_enabled_rules = Some [],
            t_rule_settings =
              Some [''C001'' \<mapsto> \<lparr>s_enabled = None, s_severity = Some ''Critical'',
                                 s_category = None, s_config = None\<rparr>]\<rparr>]\<rparr>
     ''strict''
   = (\<lparr>rules = [ArrayBoundsRule\<lparr>enabled := False\<rparr>, AssignmentInConditionRule],
       rule_templates =
        [''strict'' \<mapsto>
           \<lparr>t_name = Some ''Strict'', t_enabled_rules = Some [],
            t_rule_settings =
              Some [''C001'' \<mapsto> \<lparr>s_enabled = None, s_severity = Some ''Critical'',
                                 s_category = None, s_config = None\<rparr>]\<rparr>]\<rparr>,
      Some (ValueError ''Critical''))
   \<and> enabled AssignmentInConditionRule \<and> rule_id AssignmentInConditionRule \<notin> set []"
  by (simp add: apply_template_def get_default_def Severity_of_value_def
      ArrayBoundsRule_def AssignmentInConditionRule_def)

section \<open>Checking a batch of files\<close>

lemma enabled_positions_rules:
  "map ((!) rs) (enabled_positions rs) = filter enabled rs"
proof -
  have "filter enabled rs = filter enabled (map ((!) rs) [0..<length rs])"
    by (simp add: map_nth)
  also have "\<dots> = map ((!) rs) (filter (enabled \<circ> (!) rs) [0..<length rs])"
    by (rule filter_map)
  finally show ?thesis by (simp add: enabled_positions_def comp_def)
qed

lemma try_rule_raised:
  "snd (try_rule M fi r) = Raised e \<longleftrightarrow>
     snd (is_applicable M r fi) = Inl e
     \<or> (snd (is_applicable M r fi) = Inr True \<and> snd (check M (fst (is_applicable M r fi)) fi) = Inl e)"
  by (auto simp: try_rule_def split: prod.splits sum.splits)

lemma rules_loop_trace:
  "rules_loop M fi en rs acc tr = (rs', file_issues, tr') \<Longrightarrow>
   (\<exists>row. tr' = tr @ row \<and> map fst row = en
       \<and> file_issues = acc @ concat (map (\<lambda>entry. contribution (snd entry)) row))"
proof (induction en arbitrary: rs acc tr)
  case Nil
  then show ?case by simp
next
  case (Cons i en)
  obtain r' out where t: "try_rule M fi (rs ! i) = (r', out)" by (cases "try_rule M fi (rs ! i)")
  have step: "rules_loop M fi en (rs[i := r']) (acc @ contribution out) (tr @ [(i, out)])
                = (rs', file_issues, tr')"
    using Cons.prems t by (cases out) simp_all
  from Cons.IH [OF step] obtain row where
    row: "tr' = (tr @ [(i, out)]) @ row" "map fst row = en"
         "file_issues = (acc @ contribution out) @ concat (map (\<lambda>entry. contribution (snd entry)) row)"
    by blast
  show ?case
    by (rule exI [of _ "(i, out) # row"]) (simp add: row)
qed

lemma files_loop_trace:
  "files_loop M en files rs acc trace = (rs', all_issues, trace') \<Longrightarrow>
   (\<exists>rows. trace' = trace @ rows \<and> length rows = length files
       \<and> (\<forall>row \<in> set rows. map fst row = en)
       \<and> all_issues = acc @ concat (map (\<lambda>row. concat (map (\<lambda>entry. contribution (snd entry)) row)) rows))"
proof (induction files arbitrary: rs acc trace)
  case Nil
  then show ?case by simp
next
  case (Cons fi files)
  obtain rs1 file_issues tr where r: "rules_loop M fi en rs [] [] = (rs1, file_issues, tr)"
    by (cases "rules_loop M fi en rs [] []") auto
  from rules_loop_trace [OF r] have tr: "map fst tr = en"
    "file_issues = concat (map (\<lambda>entry. contribution (snd entry)) tr)" by auto
  have step: "files_loop M en files rs1 (acc @ file_issues) (trace @ [tr]) = (rs', all_issues, trace')"
    using Cons.prems r by simp
  from Cons.IH [OF step] obtain rows where
    rows: "trace' = (trace @ [tr]) @ rows" "length rows = length files"
      "\<forall>row \<in> set rows. map fst row = en"
      "all_issues = (acc @ file_issues) @ concat (map (\<lambda>row. concat (map (\<lambda>entry. contribution (snd entry)) row)) rows)"
    by blast
  show ?case
    by (rule exI [of _ "tr # rows"]) (simp add: rows tr)
qed

lemma enabled_positions_distinct: "distinct (enabled_positions rs)"
  by (simp add: enabled_positions_def)

lemma enabled_positions_range: "i \<in> set (enabled_positions rs) \<Longrightarrow> i < length rs"
  by (simp add: enabled_positions_def)

lemma rules_loop_exact:
  "distinct en \<Longrightarrow> \<forall>i \<in> set en. i < length rs \<Longrightarrow>
   rules_loop M fi en rs acc tr =
     (map (\<lambda>j. if j \<in> set en then fst (try_rule M fi (rs ! j)) else rs ! j) [0..<length rs],
      acc @ concat (map (\<lambda>i. contribution (snd (try_rule M fi (rs ! i)))) en),
      tr @ map (\<lambda>i. (i, snd (try_rule M fi (rs ! i)))) en)"
proof (induction en arbitrary: rs acc tr)
  case Nil
  then show ?case by (simp add: map_nth)
next
  case (Cons i en)
  obtain r' out where t: "try_rule M fi (rs ! i) = (r', out)" by (cases "try_rule M fi (rs ! i)")
  let ?rs = "rs[i := r']"
  have d: "distinct en" "i \<notin> set en" using Cons.prems(1) by simp_all
  have r: "\<forall>j \<in> set en. j < length ?rs" using Cons.prems(2) by simp
  have i: "i < length rs" using Cons.prems(2) by simp
  have same: "\<And>j. j \<in> set en \<Longrightarrow> ?rs ! j = rs ! j" using d(2) by (metis nth_list_update_neq)
  have step: "rules_loop M fi (i # en) rs acc tr
      = rules_loop M fi en ?rs (acc @ contribution out) (tr @ [(i, out)])"
    using t by (cases out) simp_all
  have st: "map (\<lambda>j. if j \<in> set en then fst (try_rule M fi (?rs ! j)) else ?rs ! j) [0..<length ?rs]
      = map (\<lambda>j. if j \<in> set (i # en) then fst (try_rule M fi (rs ! j)) else rs ! j) [0..<length rs]"
  proof (rule nth_equalityI)
    show "length (map (\<lambda>j. if j \<in> set en then fst (try_rule M fi (?rs ! j)) else ?rs ! j) [0..<length ?rs])
      = length (map (\<lambda>j. if j \<in> set (i # en) then fst (try_rule M fi (rs ! j)) else rs ! j) [0..<length rs])"
      by simp
  next
    fix j
    assume "j < length (map (\<lambda>j. if j \<in> set en then fst (try_rule M fi (?rs ! j)) else ?rs ! j) [0..<length ?rs])"
    then have j: "j < length rs" by simp
    show "map (\<lambda>j. if j \<in> set en then fst (try_rule M fi (?rs ! j)) else ?rs ! j) [0..<length ?rs] ! j
      = map (\<lambda>j. if j \<in> set (i # en) then fst (try_rule M fi (rs ! j)) else rs ! j) [0..<length rs] ! j"
    proof (cases "j = i")
      case True
      then show ?thesis using j d(2) t by simp
    next
      case False
      then show ?thesis using j same by (simp add: nth_list_update_neq)
    qed
  qed
  have iss: "map (\<lambda>k. contribution (snd (try_rule M fi (?rs ! k)))) en
      = map (\<lambda>k. contribution (snd (try_rule M fi (rs ! k)))) en"
    using same by (intro map_cong) simp_all
  have trc: "map (\<lambda>k. (k, snd (try_rule M fi (?rs ! k)))) en
      = map (\<lambda>k. (k, snd (try_rule M fi (rs ! k)))) en"
    using same by (intro map_cong) simp_all
  show ?case
    unfolding step Cons.IH [OF d(1) r] st iss trc using t by simp
qed

lemma rules_loop_objects:
  assumes "distinct en" "\<forall>i \<in> set en. i < length rs"
  shows "map ((!) (fst (rules_loop M fi en rs acc tr))) en
           = map (\<lambda>rule. fst (try_rule M fi rule)) (map ((!) rs) en)"
    and "length (fst (rules_loop M fi en rs acc tr)) = length rs"
    and "fst (snd (rules_loop M fi en rs acc tr))
           = acc @ concat (map (\<lambda>rule. contribution (snd (try_rule M fi rule))) (map ((!) rs) en))"
  using assms by (simp_all add: rules_loop_exact comp_def)

lemma files_loop_collected:
  "distinct en \<Longrightarrow> \<forall>i \<in> set en. i < length rs \<Longrightarrow>
   fst (snd (files_loop M en files rs acc trace)) = acc @ collected_issues M files (map ((!) rs) en)"
proof (induction files arbitrary: rs acc trace)
  case Nil
  then show ?case by simp
next
  case (Cons fi files)
  obtain rs1 file_issues tr where r: "rules_loop M fi en rs [] [] = (rs1, file_issues, tr)"
    by (cases "rules_loop M fi en rs [] []") auto
  have o: "map ((!) rs1) en = map (\<lambda>rule. fst (try_rule M fi rule)) (map ((!) rs) en)"
    and l: "length rs1 = length rs"
    and f: "file_issues = concat (map (\<lambda>rule. contribution (snd (try_rule M fi rule))) (map ((!) rs) en))"
    using rules_loop_objects [OF Cons.prems, where M = M and fi = fi and acc = "[]" and tr = "[]"] r
    by simp_all
  have "\<forall>i \<in> set en. i < length rs1" using Cons.prems(2) l by simp
  from Cons.IH [OF Cons.prems(1) this]
  show ?case using r o f by simp
qed

lemma collected_issues_none: "collected_issues M files [] = []"
  by (induction files) simp_all

lemma check_files_collected:
  "fst (snd (check_files M self parsed_files)) = collected_issues M parsed_files (get_enabled_rules self)"
proof (cases "enabled_positions (rules self) = []")
  case True
  then have "get_enabled_rules self = []"
    using enabled_positions_rules [of "rules self"] by (simp add: get_enabled_rules_def)
  then show ?thesis using True by (simp add: check_files_def collected_issues_none)
next
  case False
  have "fst (snd (files_loop M (enabled_positions (rules self)) parsed_files (rules self) [] []))
      = collected_issues M parsed_files (map ((!) (rules self)) (enabled_positions (rules self)))"
    using files_loop_collected [OF enabled_positions_distinct, where rs = "rules self" and M = M
        and files = parsed_files and acc = "[]" and trace = "[]"]
      enabled_positions_range by simp
  then show ?thesis
    using False
    by (cases "files_loop M (enabled_positions (rules self)) parsed_files (rules self) [] []")
       (simp add: check_files_def enabled_positions_rules get_enabled_rules_def)
qed

lemma collected_issues_pure:
  "\<forall>r fi. fst (try_rule M fi r) = r \<Longrightarrow>
   collected_issues M files rs
     = concat (map (\<lambda>fi. concat (map (\<lambda>r. contribution (snd (try_rule M fi r))) rs)) files)"
  by (induction files) simp_all

lemma try_rule_contribution:
  "contribution (snd (try_rule M fi r)) =
     (case snd (is_applicable M r fi) of
        Inl e \<Rightarrow> []
      | Inr applicable \<Rightarrow>
          if applicable then
            (case snd (check M (fst (is_applicable M r fi)) fi) of
               Inl e \<Rightarrow> []
             | Inr issues \<Rightarrow> issues)
          else [])"
  by (auto simp: try_rule_def split: prod.splits sum.splits)

lemma try_rule_pure:
  "\<forall>r fi. fst (is_applicable M r fi) = r \<Longrightarrow> \<forall>r fi. fst (check M r fi) = r \<Longrightarrow>
   fst (try_rule M fi r) = r"
proof -
  assume a: "\<forall>r fi. fst (is_applicable M r fi) = r" and c: "\<forall>r fi. fst (check M r fi) = r"
  have 1: "fst (is_applicable M r fi) = r" using a by blast
  have 2: "fst (check M r fi) = r" using c by blast
  show ?thesis
    using 1 2 by (auto simp: try_rule_def split: prod.splits sum.splits)
qed

text \<open>
  C8: for every engine, every list of files and all rule methods, \<^verbatim>\<open>check_files\<close>
  returns a list of issues; no exception of a rule method leaves it. The list is what the
  specification asks for: the concatenation, in file order and within a file in the order
  of the rules enabled at the start, of what the evaluation of each rule on each file
  contributes. When the methods leave the rule objects as they are, this is the plain
  double concatenation over the files and the enabled rules. An evaluation contributes
  the issues that \<^verbatim>\<open>check\<close> returned when the rule is applicable, and nothing when
  the rule is not applicable or when \<^verbatim>\<open>is_applicable\<close> or \<^verbatim>\<open>check\<close> raised.
  The trace has one row per file and in every row one entry for each enabled rule, in
  registration order: each pair of a file and an enabled rule is evaluated, whatever the
  other pairs did.
\<close>

theorem check_files_catches:
  "fst (snd (check_files M self parsed_files))
     = collected_issues M parsed_files (get_enabled_rules self)
   \<and> ((\<forall>rule file_info. fst (is_applicable M rule file_info) = rule)
        \<and> (\<forall>rule file_info. fst (check M rule file_info) = rule)
      \<longrightarrow> fst (snd (check_files M self parsed_files))
            = concat (map (\<lambda>file_info.
                 concat (map (\<lambda>rule. contribution (snd (try_rule M file_info rule)))
                   (get_enabled_rules self))) parsed_files))
   \<and> (\<forall>rule file_info.
        contribution (snd (try_rule M file_info rule)) =
          (case snd (is_applicable M rule file_info) of
             Inl e \<Rightarrow> []
           | Inr applicable \<Rightarrow>
               if applicable then
                 (case snd (check M (fst (is_applicable M rule file_info)) file_info) of
                    Inl e \<Rightarrow> []
                  | Inr issues \<Rightarrow> issues)
               else []))
   \<and> (case check_files M self parsed_files of
      (self', all_issues, trace) \<Rightarrow>
        all_issues = concat (map (\<lambda>row. concat (map (\<lambda>entry. contribution (snd entry)) row)) trace)
        \<and> (\<forall>row \<in> set trace. map fst row = enabled_positions (rules self))
        \<and> (enabled_positions (rules self) \<noteq> [] \<longrightarrow> length trace = length parsed_files))
   \<and> map ((!) (rules self)) (enabled_positions (rules self)) = get_enabled_rules self
   \<and> (\<forall>e. contribution (Raised e) = [])
   \<and> (\<forall>rule file_info e.
        (snd (is_applicable M rule file_info) = Inl e
         \<or> snd (is_applicable M rule file_info) = Inr True
           \<and> snd (check M (fst (is_applicable M rule file_info)) file_info) = Inl e)
        \<longrightarrow> snd (try_rule M file_info rule) = Raised e)"
proof -
  let ?en = "enabled_positions (rules self)"
  have main: "(case check_files M self parsed_files of
      (self', all_issues, trace) \<Rightarrow>
        all_issues = concat (map (\<lambda>row. concat (map (\<lambda>entry. contribution (snd entry)) row)) trace)
        \<and> (\<forall>row \<in> set trace. map fst row = ?en)
        \<and> (?en \<noteq> [] \<longrightarrow> length trace = length parsed_files))"
  proof (cases "?en = []")
    case True
    then show ?thesis by (simp add: check_files_def)
  next
    case False
    obtain rs' all_issues trace where
      f: "files_loop M ?en parsed_files (rules self) [] [] = (rs', all_issues, trace)"
      by (cases "files_loop M ?en parsed_files (rules self) [] []") auto
    from files_loop_trace [OF f] show ?thesis
      using False f by (auto simp: check_files_def)
  qed
  have pure: "(\<forall>rule file_info. fst (is_applicable M rule file_info) = rule)
        \<and> (\<forall>rule file_info. fst (check M rule file_info) = rule)
      \<longrightarrow> fst (snd (check_files M self parsed_files))
            = concat (map (\<lambda>file_info.
                 concat (map (\<lambda>rule. contribution (snd (try_rule M file_info rule)))
                   (get_enabled_rules self))) parsed_files)"
  proof
    assume a: "(\<forall>rule file_info. fst (is_applicable M rule file_info) = rule)
        \<and> (\<forall>rule file_info. fst (check M rule file_info) = rule)"
    then have "\<forall>r fi. fst (try_rule M fi r) = r" using try_rule_pure [of M] by blast
    then have "collected_issues M parsed_files (get_enabled_rules self)
            = concat (map (\<lambda>file_info.
                 concat (map (\<lambda>rule. contribution (snd (try_rule M file_info rule)))
                   (get_enabled_rules self))) parsed_files)"
      by (rule collected_issues_pure)
    then show "fst (snd (check_files M self parsed_files))
            = concat (map (\<lambda>file_info.
                 concat (map (\<lambda>rule. contribution (snd (try_rule M file_info rule)))
                   (get_enabled_rules self))) parsed_files)"
      by (simp only: check_files_collected)
  qed
  have contrib: "\<forall>rule file_info.
        contribution (snd (try_rule M file_info rule)) =
          (case snd (is_applicable M rule file_info) of
             Inl e \<Rightarrow> []
           | Inr applicable \<Rightarrow>
               if applicable then
                 (case snd (check M (fst (is_applicable M rule file_info)) file_info) of
                    Inl e \<Rightarrow> []
                  | Inr issues \<Rightarrow> issues)
               else [])"
    using try_rule_contribution by blast
  have raised: "\<forall>rule file_info e.
        (snd (is_applicable M rule file_info) = Inl e
         \<or> snd (is_applicable M rule file_info) = Inr True
           \<and> snd (check M (fst (is_applicable M rule file_info)) file_info) = Inl e)
        \<longrightarrow> snd (try_rule M file_info rule) = Raised e"
    using try_rule_raised [of M] by blast
  have objs: "map ((!) (rules self)) ?en = get_enabled_rules self"
    by (simp add: enabled_positions_rules get_enabled_rules_def)
  have raised_none: "\<forall>e. contribution (Raised e) = []" by simp
  show ?thesis
    using check_files_collected [of M self parsed_files] pure contrib main objs raised_none raised
    by blast
qed

theorem check_files_catches_witness:
  "snd (check example_methods (rules example_engine ! 0) example_file_a) = Inl (KeyError ''root_node'')
   \<and> (\<forall>rule file_info. fst (is_applicable example_methods rule file_info) = rule)
   \<and> (\<forall>rule file_info. fst (check example_methods rule file_info) = rule)
   \<and> enabled_positions (rules example_engine) = [0, 2]
   \<and> map (map fst) (snd (snd (check_files example_methods example_engine [example_file_a, example_file_b])))
       = [[0, 2], [0, 2]]
   \<and> map (map (\<lambda>entry. length (contribution (snd entry))))
        (snd (snd (check_files example_methods example_engine [example_file_a, example_file_b])))
       = [[0, 1], [0, 1]]
   \<and> map (\<lambda>issue. (issue_rule_id issue, issue_file_path issue))
        (fst (snd (check_files example_methods example_engine [example_file_a, example_file_b])))
       = [(''L001'', ''a.c''), (''L001'', ''b.c'')]
   \<and> fst (snd (check_files example_methods example_engine [example_file_a, example_file_b]))
       = [create_issue AssignmentInConditionRule example_file_a (root_node example_file_a) ''found'' [] None,
          create_issue AssignmentInConditionRule example_file_b (root_node example_file_b) ''found'' [] None]"
proof -
  have 1: "snd (check example_methods (rules example_engine ! 0) example_file_a) = Inl (KeyError ''root_node'')"
    by code_simp
  have 2: "enabled_positions (rules example_engine) = [0, 2]"
    by code_simp
  have 3: "map (map fst) (snd (snd (check_files example_methods example_engine [example_file_a, example_file_b])))
       = [[0, 2], [0, 2]]"
    by code_simp
  have 4: "map (map (\<lambda>entry. length (contribution (snd entry))))
        (snd (snd (check_files example_methods example_engine [example_file_a, example_file_b])))
       = [[0, 1], [0, 1]]"
    by code_simp
  have 5: "map (\<lambda>issue. (issue_rule_id issue, issue_file_path issue))
        (fst (snd (check_files example_methods example_engine [example_file_a, example_file_b])))
       = [(''L001'', ''a.c''), (''L001'', ''b.c'')]"
    by code_simp
  have 6: "\<forall>rule file_info. fst (is_applicable example_methods rule file_info) = rule"
    by (simp add: example_methods_def)
  have 7: "\<forall>rule file_info. fst (check example_methods rule file_info) = rule"
    by (simp add: example_methods_def)
  have 8: "get_enabled_rules example_engine
      = [ArrayBoundsRule\<lparr>rule_class := ''BrokenRule'', rule_id := ''X001''\<rparr>, AssignmentInConditionRule]"
    by (simp add: get_enabled_rules_def example_engine_def ArrayBoundsRule_def
        DivisionByZeroRule_def AssignmentInConditionRule_def)
  have 9: "contribution (snd (try_rule example_methods file_info
             (ArrayBoundsRule\<lparr>rule_class := ''BrokenRule'', rule_id := ''X001''\<rparr>))) = []"
    for file_info
    by (simp add: try_rule_def example_methods_def ArrayBoundsRule_def)
  have 10: "contribution (snd (try_rule example_methods file_info AssignmentInConditionRule))
      = [create_issue AssignmentInConditionRule file_info (root_node file_info) ''found'' [] None]"
    for file_info
    by (simp add: try_rule_def example_methods_def AssignmentInConditionRule_def)
  have 11: "fst (snd (check_files example_methods example_engine [example_file_a, example_file_b]))
       = [create_issue AssignmentInConditionRule example_file_a (root_node example_file_a) ''found'' [] None,
          create_issue AssignmentInConditionRule example_file_b (root_node example_file_b) ''found'' [] None]"
  proof -
    have "fst (snd (check_files example_methods example_engine [example_file_a, example_file_b]))
        = concat (map (\<lambda>file_info.
                 concat (map (\<lambda>rule. contribution (snd (try_rule example_methods file_info rule)))
                   (get_enabled_rules example_engine))) [example_file_a, example_file_b])"
      using check_files_catches [where M = example_methods and self = example_engine
          and parsed_files = "[example_file_a, example_file_b]"] 6 7
      by blast
    then show ?thesis by (simp only: 8 9 10 list.map concat.simps append.simps)
  qed
  show ?thesis
    using 1 2 3 4 5 6 7 11 by simp
qed

section \<open>The frame of a batch run\<close>

lemma try_rule_frame:
  assumes "\<forall>r fi. rule_configuration (fst (is_applicable M r fi)) = rule_configuration r"
    and "\<forall>r fi. rule_configuration (fst (check M r fi)) = rule_configuration r"
  shows "rule_configuration (fst (try_rule M fi r)) = rule_configuration r"
proof -
  have a: "rule_configuration (fst (is_applicable M r fi)) = rule_configuration r"
    using assms(1) by blast
  have c: "rule_configuration (fst (check M (fst (is_applicable M r fi)) fi)) = rule_configuration r"
    using assms(2) a by simp
  show ?thesis
    using a c by (auto simp: try_rule_def split: prod.splits sum.splits)
qed

lemma rules_loop_frame:
  assumes "\<forall>r fi. rule_configuration (fst (is_applicable M r fi)) = rule_configuration r"
    and "\<forall>r fi. rule_configuration (fst (check M r fi)) = rule_configuration r"
  shows "map rule_configuration (fst (rules_loop M fi en rs acc tr)) = map rule_configuration rs"
proof (induction en arbitrary: rs acc tr)
  case Nil
  then show ?case by simp
next
  case (Cons i en)
  obtain r' out where t: "try_rule M fi (rs ! i) = (r', out)" by (cases "try_rule M fi (rs ! i)")
  have r': "rule_configuration r' = rule_configuration (rs ! i)"
    using try_rule_frame [OF assms, of fi "rs ! i"] t by simp
  have upd: "map rule_configuration (rs[i := r']) = map rule_configuration rs"
  proof (cases "i < length rs")
    case True
    then have "(map rule_configuration rs)[i := rule_configuration (rs ! i)]
                 = (map rule_configuration rs)[i := map rule_configuration rs ! i]"
      by simp
    then show ?thesis by (simp add: map_update r')
  next
    case False
    then have "rs[i := r'] = rs" by (simp add: list_update_beyond)
    then show ?thesis by simp
  qed
  show ?case
    using t Cons.IH [of "rs[i := r']"] upd by (cases out) simp_all
qed

lemma files_loop_frame:
  assumes "\<forall>r fi. rule_configuration (fst (is_applicable M r fi)) = rule_configuration r"
    and "\<forall>r fi. rule_configuration (fst (check M r fi)) = rule_configuration r"
  shows "map rule_configuration (fst (files_loop M en files rs acc trace)) = map rule_configuration rs"
proof (induction files arbitrary: rs acc trace)
  case Nil
  then show ?case by simp
next
  case (Cons fi files)
  show ?case
    using Cons.IH rules_loop_frame [OF assms, of fi en rs "[]" "[]"]
    by (cases "rules_loop M fi en rs [] []") simp
qed

text \<open>
  C10: the engine writes no attribute of a rule while it checks. When the methods of
  the rule classes leave the identifier, the enabled flag, the severity and the config of
  the rule they are called on as they are, then after \<^verbatim>\<open>check_files\<close> the registry
  has the same rules with the same identifiers, flags, severities and configs as before,
  and the same templates.
\<close>

theorem check_files_frame:
  assumes "\<forall>r fi. rule_configuration (fst (is_applicable M r fi)) = rule_configuration r"
    and "\<forall>r fi. rule_configuration (fst (check M r fi)) = rule_configuration r"
  shows "map rule_configuration (rules (fst (check_files M self parsed_files)))
           = map rule_configuration (rules self)
         \<and> rule_templates (fst (check_files M self parsed_files)) = rule_templates self"
  using files_loop_frame [OF assms, of "enabled_positions (rules self)" parsed_files "rules self" "[]" "[]"]
  by (cases "files_loop M (enabled_positions (rules self)) parsed_files (rules self) [] []")
     (simp add: check_files_def Let_def)

theorem check_files_frame_witness:
  "map rule_configuration
     (rules (fst (check_files example_methods example_engine [example_file_a, example_file_b])))
   = [(''X001'', True, CRITICAL, JObj []), (''L005'', False, CRITICAL, JObj []),
      (''L001'', True, CRITICAL, JObj [])]"
proof -
  have a: "\<forall>r fi. rule_configuration (fst (is_applicable example_methods r fi)) = rule_configuration r"
    by (simp add: example_methods_def)
  have c: "\<forall>r fi. rule_configuration (fst (check example_methods r fi)) = rule_configuration r"
    by (simp add: example_methods_def)
  have e: "map rule_configuration (rules example_engine)
     = [(''X001'', True, CRITICAL, JObj []), (''L005'', False, CRITICAL, JObj []),
        (''L001'', True, CRITICAL, JObj [])]"
    by code_simp
  show ?thesis
    using check_files_frame [OF a c, where self = example_engine
        and parsed_files = "[example_file_a, example_file_b]"] e
    by simp
qed

section \<open>Searching the tree\<close>





section \<open>Array bounds\<close>





section \<open>Assignments in conditions\<close>

lemma assignment_in_condition_flagged:
  "map (\<lambda>issue. (issue_rule_id issue, line_number issue, column_number issue))
     (AssignmentInConditionRule_check AssignmentInConditionRule assign_in_condition_file)
   = [(''L001'', 1, 4)]"
  by code_simp

lemma comparison_in_condition_clean:
  "AssignmentInConditionRule_check AssignmentInConditionRule compare_in_condition_file = []"
  by code_simp

lemma assignment_doubled_parentheses_clean:
  "AssignmentInConditionRule_check AssignmentInConditionRule assign_doubled_file = []"
  by code_simp

lemma is_intentional_assignment_iff:
  "is_intentional_assignment root assign_node \<longleftrightarrow>
     (\<exists>parent grandparent.
        parent_of root assign_node = Some parent \<and> parent_of root parent = Some grandparent
        \<and> node_type (snd parent) = ''parenthesized_expression''
        \<and> node_type (snd grandparent) = ''parenthesized_expression'')"
  by (auto simp: is_intentional_assignment_def split: option.splits)

text \<open>
  C3: on \<^verbatim>\<open>if (x = 5) { y = 1; }\<close> the rule reports the assignment, on
  \<^verbatim>\<open>if (x == 5) { y = 1; }\<close> it reports nothing (the two lemmas above). On
  \<^verbatim>\<open>if ((x = 5) != 0) { y = 1; }\<close> it reports the assignment \<^verbatim>\<open>x = 5\<close> at line 1,
  column 5, all the same: the parent of the assignment is a parenthesized expression, but
  the parent of that is the comparison, and \<^verbatim>\<open>_is_intentional_assignment\<close> asks for
  a parenthesized expression there too. Only the doubled parentheses of
  \<^verbatim>\<open>if ((x = 5))\<close> silence the rule.
\<close>

theorem assignment_compared_flagged:
  "map (\<lambda>issue. (issue_rule_id issue, line_number issue, column_number issue))
     (AssignmentInConditionRule_check AssignmentInConditionRule assign_compared_file)
   = [(''L001'', 1, 5)]
   \<and> map (\<lambda>nd. (fst nd, get_node_text (snd nd) (content assign_compared_file)))
       (find_nodes_by_type (root_ref assign_compared_file) ''assignment_expression'')
     = [([0, 1, 1, 0, 1], ''x = 5''), ([0, 2, 1, 0], ''y = 1'')]
   \<and> map_option (node_type \<circ> snd)
       (parent_of (root_node assign_compared_file)
          ([0, 1, 1, 0, 1], the (node_at (root_node assign_compared_file) [0, 1, 1, 0, 1])))
     = Some ''parenthesized_expression''
   \<and> map_option node_type (node_at (root_node assign_compared_file) [0, 1, 1])
     = Some ''binary_expression''"
  by code_simp

section \<open>Division by zero\<close>








section \<open>Switch fallthrough\<close>







end
